theory Spec2Isabelle
  imports Main "HOL-Library.Multiset"
begin

section \<open>Tasks, objects and the object store\<close>

text \<open>
  The scheduler of \<open>main.js\<close> (class \<open>TaskScheduler\<close>) is modelled as functions on an
  explicit state: the IndexedDB object store, the list \<open>this.tasks\<close> and the heap of task
  objects that list refers to. An \<open>async\<close> method is the function from the state it starts
  in to the state it ends in, its awaited requests done in program order; two handlers
  running interleaved are not modelled. The page (rendering, the conflict status line,
  drag events) and the AI service are outside the model: a handler takes what it reads
  from them as an argument.

  A task is the plain object the scheduler keeps: \<open>id\<close> (absent until the object store
  assigns it), \<open>title\<close> (absent when the candidate had none), \<open>time\<close>, \<open>description\<close> and
  \<open>created\<close>. The field \<open>time\<close> holds whatever the candidate had, unchecked; every use goes
  through \<open>new Date(task.time)\<close>, so the model keeps what that reads: the instant in
  milliseconds since the epoch, or nothing when the value is missing or is no readable
  date (an invalid \<open>Date\<close>, whose number value is \<open>NaN\<close>).
\<close>

record task =
  task_id :: "nat option"
  title :: "string option"
  time :: "int option"
  description :: string
  created :: int

text \<open>
  JavaScript objects are mutable and passed by reference. The heap maps a reference to the
  object it denotes; \<open>nextRef\<close> is the next unused reference.
\<close>

type_synonym ref = nat

text \<open>
  The IndexedDB object store \<open>tasks\<close> (key path \<open>id\<close>, auto-increment): a table from keys to
  records and the key generator. Every record is a structured clone, a value of its own.
\<close>

record objectStore =
  records :: "nat \<Rightarrow> task option"
  keyGen :: nat

datatype error = ConstraintError | SyntaxError | TypeError

record state =
  db :: objectStore
  tasks :: "ref list"
  heap :: "ref \<Rightarrow> task"
  nextRef :: ref

definition oneHour :: int where
  "oneHour = 60 * 60 * 1000"

subsection \<open>Numbers that may be NaN\<close>

text \<open>
  The difference of two dates, \<open>Math.abs\<close> and \<open><\<close> on numbers that may be \<open>NaN\<close>:
  \<open>NaN\<close> spreads through the arithmetic and every comparison with it is false.
\<close>

definition dateDiff :: "int option \<Rightarrow> int option \<Rightarrow> int option" where
  "dateDiff a b =
     (case a of
        None \<Rightarrow> None
      | Some x \<Rightarrow> (case b of None \<Rightarrow> None | Some y \<Rightarrow> Some (x - y)))"

definition mathAbs :: "int option \<Rightarrow> int option" where
  "mathAbs v = map_option abs v"

definition numLess :: "int option \<Rightarrow> int \<Rightarrow> bool" where
  "numLess v c = (case v of None \<Rightarrow> False | Some x \<Rightarrow> x < c)"

subsection \<open>Array.prototype.sort\<close>

text \<open>
  \<open>sort\<close> reads a comparator result \<open>NaN\<close> as \<open>+0\<close>. For a consistent comparator the
  language fixes the result: the sorted permutation, equal elements in their former order.
  For any other comparator the order is left to the implementation; the model sorts by
  insertion, each element from the last to the first going before the first element of the
  sorted rest that it does not compare greater than.
\<close>

definition sortCompare :: "int option \<Rightarrow> int" where
  "sortCompare v = (case v of None \<Rightarrow> 0 | Some n \<Rightarrow> n)"

fun insertBefore :: "('a \<Rightarrow> 'a \<Rightarrow> int option) \<Rightarrow> 'a \<Rightarrow> 'a list \<Rightarrow> 'a list" where
  "insertBefore comparefn x [] = [x]"
| "insertBefore comparefn x (y # ys) =
     (if sortCompare (comparefn x y) \<le> 0 then x # y # ys
      else y # insertBefore comparefn x ys)"

definition arraySort :: "('a \<Rightarrow> 'a \<Rightarrow> int option) \<Rightarrow> 'a list \<Rightarrow> 'a list" where
  "arraySort comparefn xs = foldr (insertBefore comparefn) xs []"

subsection \<open>Object store requests\<close>

definition store_add :: "objectStore \<Rightarrow> task \<Rightarrow> error + (objectStore \<times> nat)" where
  "store_add os t =
     (case task_id t of
        None \<Rightarrow>
          (let key = keyGen os
           in Inr (os\<lparr>records := (records os)(key \<mapsto> t\<lparr>task_id := Some key\<rparr>),
                      keyGen := Suc key\<rparr>, key))
      | Some key \<Rightarrow>
          (case records os key of
             Some _ \<Rightarrow> Inl ConstraintError
           | None \<Rightarrow> Inr (os\<lparr>records := (records os)(key \<mapsto> t),
                              keyGen := max (keyGen os) (Suc key)\<rparr>, key)))"

definition store_put :: "objectStore \<Rightarrow> task \<Rightarrow> objectStore" where
  "store_put os t =
     (case task_id t of
        None \<Rightarrow>
          (let key = keyGen os
           in os\<lparr>records := (records os)(key \<mapsto> t\<lparr>task_id := Some key\<rparr>),
                 keyGen := Suc key\<rparr>)
      | Some key \<Rightarrow>
          os\<lparr>records := (records os)(key \<mapsto> t), keyGen := max (keyGen os) (Suc key)\<rparr>)"

definition store_delete :: "objectStore \<Rightarrow> nat \<Rightarrow> objectStore" where
  "store_delete os key = os\<lparr>records := (records os)(key := None)\<rparr>"

definition getAll :: "objectStore \<Rightarrow> task list" where
  "getAll os = List.map_filter (records os) [0..<keyGen os]"

subsection \<open>Scheduler operations on the store\<close>

definition newObject :: "state \<Rightarrow> task \<Rightarrow> state \<times> ref" where
  "newObject s t =
     (s\<lparr>heap := (heap s)(nextRef s := t), nextRef := Suc (nextRef s)\<rparr>, nextRef s)"

fun newObjects :: "state \<Rightarrow> task list \<Rightarrow> state \<times> ref list" where
  "newObjects s [] = (s, [])"
| "newObjects s (t # ts) =
     (let (s1, r) = newObject s t;
          (s2, rs) = newObjects s1 ts
      in (s2, r # rs))"

definition saveTask :: "state \<Rightarrow> ref \<Rightarrow> error + (state \<times> nat)" where
  "saveTask s task =
     (case store_add (db s) (heap s task) of
        Inl e \<Rightarrow> Inl e
      | Inr (os, key) \<Rightarrow> Inr (s\<lparr>db := os\<rparr>, key))"

text \<open>The comparator of \<open>loadTasks\<close>, \<open>(a, b) => new Date(a.time) - new Date(b.time)\<close>.\<close>

definition compareTime :: "task \<Rightarrow> task \<Rightarrow> int option" where
  "compareTime a b = dateDiff (time a) (time b)"

definition loadTasks :: "state \<Rightarrow> state" where
  "loadTasks s =
     (let (s1, rs) = newObjects s (arraySort compareTime (getAll (db s)))
      in s1\<lparr>tasks := rs\<rparr>)"

definition deleteTask :: "state \<Rightarrow> nat \<Rightarrow> state" where
  "deleteTask s key = s\<lparr>db := store_delete (db s) key\<rparr>"

definition updateTask :: "state \<Rightarrow> ref \<Rightarrow> state" where
  "updateTask s task = s\<lparr>db := store_put (db s) (heap s task)\<rparr>"

subsection \<open>Conflict resolution\<close>

text \<open>
  \<open>resolveConflicts\<close> reads \<open>newTask.time\<close> once, walks \<open>this.tasks\<close> and, at the first task
  less than one hour away, overwrites \<open>newTask.time\<close> and leaves the loop. It returns the
  reference it was given. A time that is no readable date is less than an hour from
  nothing, so the branch that adds the hour is entered with a readable time only. The
  message it puts on the page's status line is not modelled.
\<close>

fun scanTasks :: "(ref \<Rightarrow> task) \<Rightarrow> ref \<Rightarrow> int option \<Rightarrow> ref list \<Rightarrow> (ref \<Rightarrow> task)" where
  "scanTasks h newTask newTaskTime [] = h"
| "scanTasks h newTask newTaskTime (existingTask # rest) =
     (let existingTime = time (h existingTask);
          timeDiff = mathAbs (dateDiff newTaskTime existingTime)
      in if numLess timeDiff oneHour
         then h(newTask := (h newTask)\<lparr>time := map_option (\<lambda>t. t + oneHour) existingTime\<rparr>)
         else scanTasks h newTask newTaskTime rest)"

definition resolveConflicts :: "state \<Rightarrow> ref \<Rightarrow> state \<times> ref" where
  "resolveConflicts s newTask =
     (s\<lparr>heap := scanTasks (heap s) newTask (time (heap s newTask)) (tasks s)\<rparr>, newTask)"

subsection \<open>Local dates\<close>

text \<open>
  A \<open>Date\<close> is an instant in milliseconds since the epoch. The local zone is taken to have
  one constant offset \<open>tz\<close> from UTC over the dates involved (local time = instant + \<open>tz\<close>),
  so that a local day has 24 hours. \<open>setHours\<close> replaces the local time of day and lets
  hours beyond 23 roll into the following days, as the \<open>Date\<close> arithmetic does.
\<close>

definition msPerMinute :: int where
  "msPerMinute = 60 * 1000"

definition msPerDay :: int where
  "msPerDay = 24 * 60 * 60 * 1000"

definition localMidnight :: "int \<Rightarrow> int \<Rightarrow> int" where
  "localMidnight tz d = ((d + tz) div msPerDay) * msPerDay"

definition getHours :: "int \<Rightarrow> int \<Rightarrow> int" where
  "getHours tz d = ((d + tz) mod msPerDay) div oneHour"

definition setHours :: "int \<Rightarrow> int \<Rightarrow> int \<Rightarrow> int \<Rightarrow> int \<Rightarrow> int \<Rightarrow> int" where
  "setHours tz d h m sec ms =
     localMidnight tz d + h * oneHour + m * msPerMinute + sec * 1000 + ms - tz"

text \<open>\<open>setHours\<close> with the hour alone keeps the minutes, seconds and milliseconds.\<close>

definition setHoursOnly :: "int \<Rightarrow> int \<Rightarrow> int \<Rightarrow> int" where
  "setHoursOnly tz d h = localMidnight tz d + h * oneHour + (d + tz) mod oneHour - tz"

subsection \<open>Adding the tasks of an analysis\<close>

text \<open>
  \<open>addTasksFromAI\<close> is handed the elements of the parsed array as they are (the parser
  returns them unfiltered, and \<open>analyzeMedia\<close> passes any non-empty array on). An element
  that is \<open>null\<close> has no properties, and reading its \<open>title\<close> throws a \<open>TypeError\<close>;
  every other element is read through its properties \<open>title\<close>, \<open>time\<close> and
  \<open>description\<close>, each of which may be missing, and \<open>time\<close> is taken unchecked. The
  exception leaves the loop and the method: what was saved stays saved, and the list is
  not reloaded. \<open>clock n\<close> is the \<open>n\<close>-th reading of the clock, stored in \<open>created\<close>.
\<close>

record taskInfo =
  info_title :: "string option"
  info_time :: "int option"
  info_description :: "string option"

fun addTasksLoop ::
  "(nat \<Rightarrow> int) \<Rightarrow> nat \<Rightarrow> state \<Rightarrow> taskInfo option list \<Rightarrow> error option \<times> state" where
  "addTasksLoop clock n s [] = (None, s)"
| "addTasksLoop clock n s (element # rest) =
     (case element of
        None \<Rightarrow> (Some TypeError, s)
      | Some taskInfo \<Rightarrow>
          (let (s1, task) = newObject s
                 \<lparr>task_id = None,
                  title = info_title taskInfo,
                  time = info_time taskInfo,
                  description = (case info_description taskInfo of None \<Rightarrow> [] | Some d \<Rightarrow> d),
                  created = clock n\<rparr>;
               (s2, resolvedTask) = resolveConflicts s1 task
           in case saveTask s2 resolvedTask of
                Inl e \<Rightarrow> (Some e, s2)
              | Inr (s3, key) \<Rightarrow> addTasksLoop clock (Suc n) s3 rest))"

definition addTasksFromAI ::
  "(nat \<Rightarrow> int) \<Rightarrow> state \<Rightarrow> taskInfo option list \<Rightarrow> error option \<times> state" where
  "addTasksFromAI clock s taskInfoArray =
     (case addTasksLoop clock 0 s taskInfoArray of
        (Some e, s1) \<Rightarrow> (Some e, s1)
      | (None, s1) \<Rightarrow> (None, loadTasks s1))"

subsection \<open>Reordering\<close>

text \<open>
  \<open>handleTaskReorder\<close> reads the task ids of the list elements in their new order. Position
  \<open>i\<close> advances for every element, also for one whose id is not found in \<open>this.tasks\<close>.
\<close>

fun reorderLoop :: "int \<Rightarrow> int \<Rightarrow> state \<Rightarrow> nat \<Rightarrow> nat list \<Rightarrow> state" where
  "reorderLoop tz startTime s i [] = s"
| "reorderLoop tz startTime s i (taskId # rest) =
     (case find (\<lambda>t. task_id (heap s t) = Some taskId) (tasks s) of
        None \<Rightarrow> reorderLoop tz startTime s (Suc i) rest
      | Some task \<Rightarrow>
          (let newTime = setHoursOnly tz startTime (getHours tz startTime + int i);
               s1 = s\<lparr>heap := (heap s)(task := (heap s task)\<lparr>time := Some newTime\<rparr>)\<rparr>;
               s2 = updateTask s1 task
           in reorderLoop tz startTime s2 (Suc i) rest))"

definition handleTaskReorder :: "int \<Rightarrow> int \<Rightarrow> state \<Rightarrow> nat list \<Rightarrow> state" where
  "handleTaskReorder tz now s taskElements =
     (let startTime = setHours tz now 9 0 0 0
      in loadTasks (reorderLoop tz startTime s 0 taskElements))"

subsection \<open>The resolve-all button\<close>

fun resolveEach :: "state \<Rightarrow> ref list \<Rightarrow> state" where
  "resolveEach s [] = s"
| "resolveEach s (task # rest) = resolveEach (fst (resolveConflicts s task)) rest"

definition resolveConflictsClick :: "state \<Rightarrow> state" where
  "resolveConflictsClick s = loadTasks (resolveEach s (tasks s))"

text \<open>The in-memory list as values: the objects \<open>this.tasks\<close> refers to, in order.\<close>

definition view :: "state \<Rightarrow> task list" where
  "view s = map (heap s) (tasks s)"

subsection \<open>Start-up\<close>

text \<open>
  The constructor sets \<open>this.tasks\<close> to the empty list; \<open>init\<close> opens the database and
  loads it. A fresh database has no record and its key generator stands at 1.
\<close>

definition blankTask :: task where
  "blankTask = \<lparr>task_id = None, title = None, time = None, description = [], created = 0\<rparr>"

definition emptyStore :: objectStore where
  "emptyStore = \<lparr>records = Map.empty, keyGen = 1\<rparr>"

definition init :: "objectStore \<Rightarrow> state" where
  "init os = loadTasks \<lparr>db = os, tasks = [], heap = (\<lambda>r. blankTask), nextRef = 0\<rparr>"

subsection \<open>Notions the properties are stated with\<close>

text \<open>
  A state is well formed when every object of \<open>this.tasks\<close> has been allocated, so that a
  new object is never one of them. A store is keyed when each record carries its key in
  \<open>id\<close>, as the key path has it.
\<close>

definition wellFormed :: "state \<Rightarrow> bool" where
  "wellFormed s = list_all (\<lambda>r. r < nextRef s) (tasks s)"


text \<open>Two times are too close when both are readable and less than one hour apart.\<close>

definition tooClose :: "int option \<Rightarrow> int option \<Rightarrow> bool" where
  "tooClose x y =
     (case x of
        None \<Rightarrow> False
      | Some a \<Rightarrow> (case y of None \<Rightarrow> False | Some b \<Rightarrow> \<bar>a - b\<bar> < oneHour))"

text \<open>
  \<open>resolvedTime existing t\<close> is the time a task entering at \<open>t\<close> leaves with, given the
  tasks of the list as values. \<open>processed\<close> are the elements of a batch before its first
  \<open>null\<close>, and \<open>storedTask\<close> is the record the batch loop builds from one of them and
  stores under \<open>key\<close>.
\<close>

definition resolvedTime :: "task list \<Rightarrow> int option \<Rightarrow> int option" where
  "resolvedTime existing t =
     (case find (\<lambda>e. tooClose t (time e)) existing of
        None \<Rightarrow> t
      | Some e \<Rightarrow> map_option (\<lambda>b. b + oneHour) (time e))"

fun processed :: "'a option list \<Rightarrow> 'a list" where
  "processed [] = []"
| "processed (None # rest) = []"
| "processed (Some c # rest) = c # processed rest"

definition storedTask :: "int \<Rightarrow> task list \<Rightarrow> nat \<Rightarrow> taskInfo \<Rightarrow> task" where
  "storedTask now existing key c =
     \<lparr>task_id = Some key, title = info_title c,
      time = resolvedTime existing (info_time c),
      description = (case info_description c of None \<Rightarrow> [] | Some d \<Rightarrow> d),
      created = now\<rparr>"

text \<open>The records of a run of candidates: keys and clock readings advance by one.\<close>

fun storedTasks ::
  "(nat \<Rightarrow> int) \<Rightarrow> nat \<Rightarrow> task list \<Rightarrow> nat \<Rightarrow> taskInfo list \<Rightarrow> task list" where
  "storedTasks clock n existing key [] = []"
| "storedTasks clock n existing key (c # cs) =
     storedTask (clock n) existing key c # storedTasks clock (Suc n) existing (Suc key) cs"



subsection \<open>Example states\<close>

text \<open>
  Three loaded tasks at 00:00, 02:00 and 02:30 (objects 0, 1, 2) and a fresh object 3 at
  01:45, all on the first day of the epoch.
\<close>

definition exState :: state where
  "exState = \<lparr>db = \<lparr>records = Map.empty, keyGen = 1\<rparr>, tasks = [0, 1, 2],
     heap = (\<lambda>r. \<lparr>task_id = None, title = None,
        time = Some (if r = 0 then 0 else if r = 1 then 7200000 else if r = 2 then 9000000
                     else 6300000),
        description = [], created = 0\<rparr>),
     nextRef = 4\<rparr>"

text \<open>
  A store with two records, a meeting at 11:00 (id 1) and a visit at 10:00 (id 2), and the
  state right after loading it.
\<close>

definition exStore :: objectStore where
  "exStore =
     \<lparr>records =
        [1 \<mapsto> blankTask\<lparr>task_id := Some 1, title := Some ''Business meeting'',
                         time := Some 39600000\<rparr>,
         2 \<mapsto> blankTask\<lparr>task_id := Some 2, title := Some ''Vet visit'',
                         time := Some 36000000\<rparr>],
      keyGen = 3\<rparr>"

definition exLoaded :: state where
  "exLoaded = init exStore"

definition candidate :: "string option \<Rightarrow> int option \<Rightarrow> taskInfo" where
  "candidate ttl t = \<lparr>info_title = ttl, info_time = t, info_description = None\<rparr>"

section \<open>Reading the AI response\<close>

text \<open>
  A response is a list of characters. The model reads it as ASCII text: white space is
  what \<open>\s\<close> and \<open>trim\<close> accept there, and the \<open>i\<close> flag folds the letters A to Z.
\<close>

definition isSpace :: "char \<Rightarrow> bool" where
  "isSpace c = (of_char c \<in> {9, 10, 11, 12, 13, 32 :: nat})"

definition isLineTerminator :: "char \<Rightarrow> bool" where
  "isLineTerminator c = (of_char c \<in> {10, 13 :: nat})"

definition isDigit :: "char \<Rightarrow> bool" where
  "isDigit c = (48 \<le> (of_char c :: nat) \<and> (of_char c :: nat) \<le> 57)"

definition lower :: "char \<Rightarrow> char" where
  "lower c = (if 65 \<le> (of_char c :: nat) \<and> (of_char c :: nat) \<le> 90
              then char_of (of_char c + 32 :: nat) else c)"

definition trim :: "string \<Rightarrow> string" where
  "trim s = rev (dropWhile isSpace (rev (dropWhile isSpace s)))"

subsection \<open>The bracket patterns\<close>

text \<open>
  \<open>/\[[\s\S]*?\]/\<close> and \<open>/\{[\s\S]*?\}/\<close>: the match starts at the first opening
  character and, being lazy, ends at the first closing character after it. When none follows
  the first opening character, none follows a later one, and there is no match.
\<close>

definition bracketMatch :: "char \<Rightarrow> char \<Rightarrow> string \<Rightarrow> string option" where
  "bracketMatch opening closing s =
     (case dropWhile (\<lambda>c. c \<noteq> opening) s of
        [] \<Rightarrow> None
      | c # rest \<Rightarrow>
          if closing \<in> set rest
          then Some (c # takeWhile (\<lambda>d. d \<noteq> closing) rest @ [closing])
          else None)"

subsection \<open>JSON.parse\<close>

text \<open>
  \<open>JSON.parse\<close> either returns the value the text denotes or throws a \<open>SyntaxError\<close>. The
  value is kept as its syntax tree: a number as its lexeme, a string as the characters
  between its quotes (escapes checked, not decoded), an object as its members in order.
\<close>

datatype json =
    JNull
  | JBool bool
  | JNumber string
  | JString string
  | JArray "json list"
  | JObject "(string \<times> json) list"

datatype token =
    LBracket | RBracket | LBrace | RBrace | Comma | Colon
  | TString string | TNumber string | TWord string

definition isJsonSpace :: "char \<Rightarrow> bool" where
  "isJsonSpace c = (of_char c \<in> {9, 10, 13, 32 :: nat})"

definition isHexDigit :: "char \<Rightarrow> bool" where
  "isHexDigit c = (isDigit c \<or> lower c \<in> set ''abcdef'')"

definition isNumberChar :: "char \<Rightarrow> bool" where
  "isNumberChar c = (isDigit c \<or> c \<in> set ''+-.eE'')"

definition isLetter :: "char \<Rightarrow> bool" where
  "isLetter c = (97 \<le> (of_char c :: nat) \<and> (of_char c :: nat) \<le> 122)"

text \<open>The characters of a string token, after the opening quote, up to the closing one.\<close>

fun lexString :: "string \<Rightarrow> string \<Rightarrow> (string \<times> string) option" where
  "lexString acc [] = None"
| "lexString acc (c # cs) =
     (if c = CHR 0x22 then Some (rev acc, cs)
      else if c = CHR 0x5C then
        (case cs of
           [] \<Rightarrow> None
         | e # cs1 \<Rightarrow>
             if e \<in> set [CHR 0x22, CHR 0x5C, CHR ''/'', CHR ''b'', CHR ''f'', CHR ''n'', CHR ''r'', CHR ''t'']
             then lexString (e # c # acc) cs1
             else if e = CHR ''u'' then
               (case cs1 of
                  h1 # h2 # h3 # h4 # cs2 \<Rightarrow>
                    if isHexDigit h1 \<and> isHexDigit h2 \<and> isHexDigit h3 \<and> isHexDigit h4
                    then lexString (h4 # h3 # h2 # h1 # e # c # acc) cs2
                    else None
                | _ \<Rightarrow> None)
             else None)
      else if (of_char c :: nat) < 32 then None
      else lexString (c # acc) cs)"

text \<open>The number grammar: \<open>-? (0 | [1-9][0-9]*) (. [0-9]+)? ([eE] [+-]? [0-9]+)?\<close>.\<close>

definition numberInt :: "string \<Rightarrow> string option" where
  "numberInt s =
     (case s of
        [] \<Rightarrow> None
      | d # r \<Rightarrow> if d = CHR ''0'' then Some r
                 else if isDigit d then Some (dropWhile isDigit r)
                 else None)"

definition numberFrac :: "string \<Rightarrow> string option" where
  "numberFrac s =
     (case s of
        [] \<Rightarrow> Some []
      | d # r \<Rightarrow> if d = CHR ''.''
                 then (case r of [] \<Rightarrow> None
                       | f # _ \<Rightarrow> if isDigit f then Some (dropWhile isDigit r) else None)
                 else Some s)"

definition numberExp :: "string \<Rightarrow> bool" where
  "numberExp s =
     (case s of
        [] \<Rightarrow> True
      | e # r \<Rightarrow>
          if e = CHR ''e'' \<or> e = CHR ''E''
          then (let ds = (case r of [] \<Rightarrow> []
                          | g # r1 \<Rightarrow> if g = CHR ''+'' \<or> g = CHR ''-'' then r1 else r)
                in ds \<noteq> [] \<and> list_all isDigit ds)
          else False)"

definition validNumber :: "string \<Rightarrow> bool" where
  "validNumber s =
     (let s1 = (case s of [] \<Rightarrow> [] | m # r \<Rightarrow> if m = CHR ''-'' then r else s)
      in case numberInt s1 of
           None \<Rightarrow> False
         | Some r \<Rightarrow> (case numberFrac r of None \<Rightarrow> False | Some r1 \<Rightarrow> numberExp r1))"

function lexJson :: "string \<Rightarrow> token list option" where
  "lexJson [] = Some []"
| "lexJson (c # cs) =
     (if isJsonSpace c then lexJson cs
      else if c = CHR ''['' then map_option (Cons LBracket) (lexJson cs)
      else if c = CHR '']'' then map_option (Cons RBracket) (lexJson cs)
      else if c = CHR ''{'' then map_option (Cons LBrace) (lexJson cs)
      else if c = CHR ''}'' then map_option (Cons RBrace) (lexJson cs)
      else if c = CHR '','' then map_option (Cons Comma) (lexJson cs)
      else if c = CHR '':'' then map_option (Cons Colon) (lexJson cs)
      else if c = CHR 0x22 then
        (case lexString [] cs of
           None \<Rightarrow> None
         | Some (str, rest) \<Rightarrow> map_option (Cons (TString str)) (lexJson rest))
      else if c = CHR ''-'' \<or> isDigit c then
        (if validNumber (c # takeWhile isNumberChar cs)
         then map_option (Cons (TNumber (c # takeWhile isNumberChar cs)))
                (lexJson (dropWhile isNumberChar cs))
         else None)
      else if isLetter c then
        map_option (Cons (TWord (c # takeWhile isLetter cs))) (lexJson (dropWhile isLetter cs))
      else None)"
  by pat_completeness auto

lemma lexString_shorter:
  "lexString acc cs = Some (str, rest) \<Longrightarrow> length rest < length cs"
proof (induction acc cs rule: lexString.induct)
  case (1 acc)
  then show ?case by simp
next
  case (2 acc c cs)
  show ?case
  proof (cases "c = CHR 0x22")
    case True
    with "2.prems" show ?thesis by simp
  next
    case q: False
    show ?thesis
    proof (cases "c = CHR 0x5C")
      case b: True
      show ?thesis
      proof (cases cs)
        case Nil
        with q b "2.prems" show ?thesis by simp
      next
        case (Cons e cs1)
        show ?thesis
        proof (cases "e \<in> set [CHR 0x22, CHR 0x5C, CHR ''/'', CHR ''b'', CHR ''f'', CHR ''n'', CHR ''r'', CHR ''t'']")
          case True
          with q b Cons "2.prems" have "lexString (e # c # acc) cs1 = Some (str, rest)"
            by simp
          from "2.IH"(1) [OF q b Cons True this] show ?thesis using Cons by simp
        next
          case ne: False
          show ?thesis
          proof (cases "e = CHR ''u''")
            case u: True
            from q b Cons ne u "2.prems" obtain h1 h2 h3 h4 cs2 where
              cs1: "cs1 = h1 # h2 # h3 # h4 # cs2" and
              hex: "isHexDigit h1 \<and> isHexDigit h2 \<and> isHexDigit h3 \<and> isHexDigit h4" and
              r: "lexString (h4 # h3 # h2 # h1 # e # c # acc) cs2 = Some (str, rest)"
              by (simp split: list.splits if_splits)
            from "2.IH"(2) [OF q b Cons ne u _ _ _ _ hex r] cs1
            have "length rest < length cs2" by simp
            then show ?thesis using Cons cs1 by simp
          next
            case False
            with q b Cons ne "2.prems" show ?thesis by simp
          qed
        qed
      qed
    next
      case nb: False
      show ?thesis
      proof (cases "(of_char c :: nat) < 32")
        case True
        with q nb "2.prems" show ?thesis by simp
      next
        case False
        with q nb "2.prems" have "lexString (c # acc) cs = Some (str, rest)" by simp
        from "2.IH"(3) [OF q nb False this] show ?thesis by simp
      qed
    qed
  qed
qed

termination lexJson
proof (relation "measure length")
  show "wf (measure length)" by simp
next
  fix c cs x2 x y
  assume "lexString [] cs = Some x2" "(x, y) = x2"
  then have "lexString [] cs = Some (x, y)" by simp
  from lexString_shorter [OF this] show "(y, c # cs) \<in> measure length" by simp
qed (simp_all add: length_dropWhile_le less_Suc_eq_le)

text \<open>
  The token sequence is read by a pushdown automaton: the stack holds the containers that
  are open, innermost first, with the elements or members read so far in reverse.
\<close>

datatype frame = FArray "json list" | FObject "(string \<times> json) list" | FKey string

datatype pstate =
    WantValue | WantValueOrClose | WantKeyOrClose | WantKey | WantColon | AfterValue
  | Done json

definition deliver :: "json \<Rightarrow> frame list \<Rightarrow> (pstate \<times> frame list) option" where
  "deliver v st =
     (case st of
        [] \<Rightarrow> Some (Done v, [])
      | FArray es # st1 \<Rightarrow> Some (AfterValue, FArray (v # es) # st1)
      | FKey k # FObject ms # st1 \<Rightarrow> Some (AfterValue, FObject ((k, v) # ms) # st1)
      | _ \<Rightarrow> None)"

definition scalar :: "token \<Rightarrow> json option" where
  "scalar t =
     (case t of
        TString s \<Rightarrow> Some (JString s)
      | TNumber n \<Rightarrow> Some (JNumber n)
      | TWord w \<Rightarrow> if w = ''true'' then Some (JBool True)
                   else if w = ''false'' then Some (JBool False)
                   else if w = ''null'' then Some JNull
                   else None
      | _ \<Rightarrow> None)"

definition openValue :: "token \<Rightarrow> frame list \<Rightarrow> (pstate \<times> frame list) option" where
  "openValue t st =
     (case t of
        LBracket \<Rightarrow> Some (WantValueOrClose, FArray [] # st)
      | LBrace \<Rightarrow> Some (WantKeyOrClose, FObject [] # st)
      | _ \<Rightarrow> (case scalar t of None \<Rightarrow> None | Some v \<Rightarrow> deliver v st))"

definition closeArray :: "frame list \<Rightarrow> (pstate \<times> frame list) option" where
  "closeArray st = (case st of FArray es # st1 \<Rightarrow> deliver (JArray (rev es)) st1 | _ \<Rightarrow> None)"

definition closeObject :: "frame list \<Rightarrow> (pstate \<times> frame list) option" where
  "closeObject st = (case st of FObject ms # st1 \<Rightarrow> deliver (JObject (rev ms)) st1 | _ \<Rightarrow> None)"

definition wantKey :: "token \<Rightarrow> frame list \<Rightarrow> (pstate \<times> frame list) option" where
  "wantKey t st = (case t of TString k \<Rightarrow> Some (WantColon, FKey k # st) | _ \<Rightarrow> None)"

fun step :: "pstate \<Rightarrow> frame list \<Rightarrow> token \<Rightarrow> (pstate \<times> frame list) option" where
  "step WantValue st t = openValue t st"
| "step WantValueOrClose st t = (if t = RBracket then closeArray st else openValue t st)"
| "step WantKeyOrClose st t = (if t = RBrace then closeObject st else wantKey t st)"
| "step WantKey st t = wantKey t st"
| "step WantColon st t = (if t = Colon then Some (WantValue, st) else None)"
| "step AfterValue st t =
     (case st of
        FArray es # st1 \<Rightarrow>
          if t = Comma then Some (WantValue, st)
          else if t = RBracket then closeArray st
          else None
      | FObject ms # st1 \<Rightarrow>
          if t = Comma then Some (WantKey, st)
          else if t = RBrace then closeObject st
          else None
      | _ \<Rightarrow> None)"
| "step (Done v) st t = None"

fun runTokens :: "pstate \<Rightarrow> frame list \<Rightarrow> token list \<Rightarrow> (pstate \<times> frame list) option" where
  "runTokens p st [] = Some (p, st)"
| "runTokens p st (t # ts) =
     (case step p st t of None \<Rightarrow> None | Some (p1, st1) \<Rightarrow> runTokens p1 st1 ts)"

definition JSON_parse :: "string \<Rightarrow> error + json" where
  "JSON_parse text =
     (case lexJson text of
        None \<Rightarrow> Inl SyntaxError
      | Some ts \<Rightarrow>
          (case runTokens WantValue [] ts of
             Some (Done v, []) \<Rightarrow> Inr v
           | _ \<Rightarrow> Inl SyntaxError))"

subsection \<open>The lexical patterns\<close>

text \<open>
  The two remaining patterns are matched the way a backtracking matcher does it: at the
  leftmost position where the whole pattern succeeds, alternatives in the order written,
  greedy parts longest first, lazy parts shortest first. A part is a function from the rest
  of the input to the result of the parts after it.
\<close>

definition stripPrefixCI :: "string \<Rightarrow> string \<Rightarrow> string option" where
  "stripPrefixCI kw s =
     (if length kw \<le> length s \<and> map lower (take (length kw) s) = kw
      then Some (drop (length kw) s) else None)"

fun firstAlt :: "string list \<Rightarrow> (string \<Rightarrow> 'a option) \<Rightarrow> string \<Rightarrow> 'a option" where
  "firstAlt [] k s = None"
| "firstAlt (kw # kws) k s =
     (case (case stripPrefixCI kw s of None \<Rightarrow> None | Some rest \<Rightarrow> k rest) of
        Some r \<Rightarrow> Some r
      | None \<Rightarrow> firstAlt kws k s)"

text \<open>\<open>\s*\<close>: as many white-space characters as possible, giving them back one by one.\<close>

fun greedySpaces :: "(string \<Rightarrow> 'a option) \<Rightarrow> string \<Rightarrow> 'a option" where
  "greedySpaces k [] = k []"
| "greedySpaces k (c # cs) =
     (if isSpace c
      then (case greedySpaces k cs of Some r \<Rightarrow> Some r | None \<Rightarrow> k (c # cs))
      else k (c # cs))"

text \<open>\<open>:?\<close>: the colon if it is there, else nothing.\<close>

definition optColon :: "(string \<Rightarrow> 'a option) \<Rightarrow> string \<Rightarrow> 'a option" where
  "optColon k s =
     (case s of
        [] \<Rightarrow> k s
      | c # cs \<Rightarrow>
          if c = CHR '':''
          then (case k cs of Some r \<Rightarrow> Some r | None \<Rightarrow> k s)
          else k s)"

text \<open>The lookahead \<open>(?=\s*(?:at|on|time:)|$)\<close>; \<open>$\<close> is the end of the input.\<close>

definition timeWordAhead :: "string \<Rightarrow> bool" where
  "timeWordAhead s =
     (greedySpaces (firstAlt [''at'', ''on'', ''time:''] (\<lambda>rest. Some ())) s = Some () \<or> s = [])"

text \<open>
  \<open>(.+?)\<close> before the lookahead: the shortest non-empty run of characters other than line
  terminators after which the lookahead holds. \<open>acc\<close> is the run so far, reversed.
\<close>

fun lazyTitle :: "string \<Rightarrow> string \<Rightarrow> string option" where
  "lazyTitle acc [] = (if acc \<noteq> [] then Some (rev acc) else None)"
| "lazyTitle acc (c # cs) =
     (if acc \<noteq> [] \<and> timeWordAhead (c # cs) then Some (rev acc)
      else if isLineTerminator c then None
      else lazyTitle (c # acc) cs)"

text \<open>
  \<open>/(?:task|meeting|appointment):?\s*(.+?)(?=\s*(?:at|on|time:)|$)/i\<close>; the result is
  the first group.
\<close>

definition taskMatchAt :: "string \<Rightarrow> string option" where
  "taskMatchAt s =
     firstAlt [''task'', ''meeting'', ''appointment'']
       (optColon (greedySpaces (lazyTitle []))) s"

fun taskMatch :: "string \<Rightarrow> string option" where
  "taskMatch [] = taskMatchAt []"
| "taskMatch (c # cs) =
     (case taskMatchAt (c # cs) of Some g \<Rightarrow> Some g | None \<Rightarrow> taskMatch cs)"

text \<open>
  The time of day \<open>\d{1,2}(?::\d{2})?\s*(?:am|pm)?\<close>: hour digits, minute digits if any,
  the period if any, and the text matched. Every part after the hour is optional, so the
  longest choice of each part succeeds.
\<close>

record timeOfDay =
  hourDigits :: string
  minuteDigits :: "string option"
  period :: "string option"
  matched :: string

definition timeOfDayAt :: "string \<Rightarrow> timeOfDay option" where
  "timeOfDayAt s =
     (case s of
        [] \<Rightarrow> None
      | d1 # r1 \<Rightarrow>
          if \<not> isDigit d1 then None
          else
            (let (hs, r2) = (case r1 of
                               [] \<Rightarrow> ([d1], r1)
                             | d2 # r \<Rightarrow> if isDigit d2 then ([d1, d2], r) else ([d1], r1));
                 (ms, r3) = (case r2 of
                               c # m1 # m2 # r \<Rightarrow>
                                 if c = CHR '':'' \<and> isDigit m1 \<and> isDigit m2
                                 then (Some [m1, m2], r) else (None, r2)
                             | _ \<Rightarrow> (None, r2));
                 sp = takeWhile isSpace r3;
                 r4 = dropWhile isSpace r3;
                 pd = (if map lower (take 2 r4) = ''am'' \<or> map lower (take 2 r4) = ''pm''
                       then Some (take 2 r4) else None)
             in Some \<lparr>hourDigits = hs, minuteDigits = ms, period = pd,
                      matched = hs @ (case ms of None \<Rightarrow> [] | Some m \<Rightarrow> CHR '':'' # m) @ sp @
                                (case pd of None \<Rightarrow> [] | Some p \<Rightarrow> p)\<rparr>))"

text \<open>
  \<open>/(?:at|on|time:)\s*(\d{1,2}(?::\d{2})?\s*(?:am|pm)?)/i\<close>; the result is the first
  group.
\<close>

definition timeMatchAt :: "string \<Rightarrow> string option" where
  "timeMatchAt s =
     firstAlt [''at'', ''on'', ''time:'']
       (greedySpaces (\<lambda>rest. map_option matched (timeOfDayAt rest))) s"

fun timeMatch :: "string \<Rightarrow> string option" where
  "timeMatch [] = timeMatchAt []"
| "timeMatch (c # cs) =
     (case timeMatchAt (c # cs) of Some g \<Rightarrow> Some g | None \<Rightarrow> timeMatch cs)"

subsection \<open>Times of day\<close>

definition parseInt :: "string \<Rightarrow> int" where
  "parseInt ds = foldl (\<lambda>n d. 10 * n + (int (of_char d) - 48)) 0 ds"

definition getDefaultTime :: "int \<Rightarrow> int \<Rightarrow> int" where
  "getDefaultTime tz now = setHours tz now (getHours tz now + 1) 0 0 0"

text \<open>\<open>/(\d{1,2})(?::(\d{2}))?\s*(am|pm)?/i\<close> matches at the first digit of the string.\<close>

definition parseTimeString :: "int \<Rightarrow> int \<Rightarrow> string \<Rightarrow> int" where
  "parseTimeString tz now timeStr =
     (case timeOfDayAt (dropWhile (\<lambda>c. \<not> isDigit c) timeStr) of
        None \<Rightarrow> getDefaultTime tz now
      | Some m \<Rightarrow>
          (let hours = parseInt (hourDigits m);
               minutes = (case minuteDigits m of None \<Rightarrow> 0 | Some ds \<Rightarrow> parseInt ds);
               pd = (case period m of None \<Rightarrow> [] | Some p \<Rightarrow> map lower p);
               hours1 = (if pd = ''pm'' \<and> hours < 12 then hours + 12 else hours);
               hours2 = (if pd = ''am'' \<and> hours1 = 12 then 0 else hours1)
           in setHours tz now hours2 minutes 0 0))"

subsection \<open>parseTaskFromAI\<close>

text \<open>
  A candidate is either a value \<open>JSON.parse\<close> returned or the object the lexical rule
  builds from a title and a time. Each of the three rules either returns candidates,
  finds nothing, or (the first two) throws. The body of the \<open>try\<close> block runs them in
  order; the \<open>catch\<close> turns whatever was thrown into \<open>null\<close>.
\<close>

datatype candidate = Parsed json | Extracted string int

definition arrayRule :: "string \<Rightarrow> error + candidate list option" where
  "arrayRule aiResponse =
     (case bracketMatch CHR ''['' CHR '']'' aiResponse of
        None \<Rightarrow> Inr None
      | Some arrayMatch \<Rightarrow>
          (case JSON_parse (trim arrayMatch) of
             Inl e \<Rightarrow> Inl e
           | Inr parsedResult \<Rightarrow>
               (case parsedResult of
                  JArray elems \<Rightarrow> Inr (Some (map Parsed elems))
                | _ \<Rightarrow> Inr None)))"

definition objectRule :: "string \<Rightarrow> error + candidate list option" where
  "objectRule aiResponse =
     (case bracketMatch CHR ''{'' CHR ''}'' aiResponse of
        None \<Rightarrow> Inr None
      | Some jsonMatch \<Rightarrow>
          (case JSON_parse (trim jsonMatch) of
             Inl e \<Rightarrow> Inl e
           | Inr singleTask \<Rightarrow> Inr (Some [Parsed singleTask])))"

definition lexicalRule :: "int \<Rightarrow> int \<Rightarrow> string \<Rightarrow> candidate list option" where
  "lexicalRule tz now aiResponse =
     (case taskMatch aiResponse of
        None \<Rightarrow> None
      | Some g \<Rightarrow>
          Some [Extracted (trim g)
                  (case timeMatch aiResponse of
                     Some t \<Rightarrow> parseTimeString tz now t
                   | None \<Rightarrow> getDefaultTime tz now)])"

definition tryBlock :: "int \<Rightarrow> int \<Rightarrow> string \<Rightarrow> error + candidate list option" where
  "tryBlock tz now aiResponse =
     (case arrayRule aiResponse of
        Inl e \<Rightarrow> Inl e
      | Inr (Some found) \<Rightarrow> Inr (Some found)
      | Inr None \<Rightarrow>
          (case objectRule aiResponse of
             Inl e \<Rightarrow> Inl e
           | Inr (Some found) \<Rightarrow> Inr (Some found)
           | Inr None \<Rightarrow> Inr (lexicalRule tz now aiResponse)))"

definition parseTaskFromAI :: "int \<Rightarrow> int \<Rightarrow> string \<Rightarrow> candidate list option" where
  "parseTaskFromAI tz now aiResponse =
     (case tryBlock tz now aiResponse of
        Inl e \<Rightarrow> None
      | Inr r \<Rightarrow> r)"

subsection \<open>The parser with failed rules skipped\<close>

text \<open>
  The specification's reading of the three rules, for comparison: a rule that throws counts
  as a rule that found nothing, and the next rule is tried.
\<close>

definition failedOnError :: "error + 'a option \<Rightarrow> 'a option" where
  "failedOnError r = (case r of Inl e \<Rightarrow> None | Inr x \<Rightarrow> x)"

definition parseFallingThrough :: "int \<Rightarrow> int \<Rightarrow> string \<Rightarrow> candidate list option" where
  "parseFallingThrough tz now aiResponse =
     (case failedOnError (arrayRule aiResponse) of
        Some found \<Rightarrow> Some found
      | None \<Rightarrow>
          (case failedOnError (objectRule aiResponse) of
             Some found \<Rightarrow> Some found
           | None \<Rightarrow> lexicalRule tz now aiResponse))"

subsection \<open>Example responses\<close>

definition milkText :: string where
  \<open>milkText = ''The task is: Buy milk at 5pm''\<close>

definition urgentText :: string where
  \<open>urgentText = ''Task: call Bob [urgent] at 5pm''\<close>

definition bothText :: string where
  \<open>bothText = ''[{"title":"A"}] {"title":"B"}''\<close>

definition bugText :: string where
  \<open>bugText = ''[{"title":"Fix [bug]"}] {"title":"B"}''\<close>

section \<open>Properties of conflict resolution\<close>

lemma numLess_tooClose: "numLess (mathAbs (dateDiff x y)) oneHour = tooClose x y"
  by (simp add: numLess_def mathAbs_def dateDiff_def tooClose_def split: option.splits)

lemma scanTasks_no_conflict:
  "\<forall>p\<in>set ts. \<not> tooClose t (time (h p)) \<Longrightarrow> scanTasks h r t ts = h"
  by (induction ts) (simp_all add: Let_def numLess_tooClose)

lemma scanTasks_first_conflict:
  "\<forall>p\<in>set pre. \<not> tooClose t (time (h p)) \<Longrightarrow> tooClose t (time (h e)) \<Longrightarrow>
   scanTasks h r t (pre @ e # post)
     = h(r := (h r)\<lparr>time := map_option (\<lambda>b. b + oneHour) (time (h e))\<rparr>)"
  by (induction pre) (simp_all add: Let_def numLess_tooClose)

lemma tooClose_readable: "tooClose x y \<Longrightarrow> \<exists>b. y = Some b"
  by (simp add: tooClose_def split: option.splits)

text \<open>
  Claim C1. \<open>resolveConflicts\<close> walks \<open>this.tasks\<close> in order. At the first existing task whose
  time is strictly less than one hour from the new task's time, the new task's time becomes
  that task's time plus one hour, whatever tasks follow it in the list (the walk stops there).
  When no existing task is that close, nothing changes and the task is returned as it was.
\<close>

theorem resolveConflicts_policy:
  "(\<forall>pre e post.
      tasks s = pre @ e # post \<and>
      (\<forall>p\<in>set pre. \<not> tooClose (time (heap s newTask)) (time (heap s p))) \<and>
      tooClose (time (heap s newTask)) (time (heap s e)) \<longrightarrow>
      (\<exists>b. time (heap s e) = Some b \<and>
           time (heap (fst (resolveConflicts s newTask)) (snd (resolveConflicts s newTask)))
             = Some (b + oneHour))) \<and>
   ((\<forall>p\<in>set (tasks s). \<not> tooClose (time (heap s newTask)) (time (heap s p))) \<longrightarrow>
      resolveConflicts s newTask = (s, newTask))"
proof (intro conjI allI impI)
  fix pre e post
  assume a: "tasks s = pre @ e # post \<and>
      (\<forall>p\<in>set pre. \<not> tooClose (time (heap s newTask)) (time (heap s p))) \<and>
      tooClose (time (heap s newTask)) (time (heap s e))"
  then obtain b where b: "time (heap s e) = Some b" using tooClose_readable by blast
  from a have "scanTasks (heap s) newTask (time (heap s newTask)) (tasks s)
      = (heap s)(newTask := (heap s newTask)\<lparr>time := map_option (\<lambda>b. b + oneHour) (time (heap s e))\<rparr>)"
    by (simp add: scanTasks_first_conflict)
  with b show "\<exists>b. time (heap s e) = Some b \<and>
           time (heap (fst (resolveConflicts s newTask)) (snd (resolveConflicts s newTask)))
             = Some (b + oneHour)"
    by (simp add: resolveConflicts_def)
next
  assume "\<forall>p\<in>set (tasks s). \<not> tooClose (time (heap s newTask)) (time (heap s p))"
  then show "resolveConflicts s newTask = (s, newTask)"
    by (simp add: resolveConflicts_def scanTasks_no_conflict)
qed

theorem resolveConflicts_policy_witness:
  "tasks exState = [0] @ 1 # [2] \<and>
   \<not> tooClose (time (heap exState 3)) (time (heap exState 0)) \<and>
   tooClose (time (heap exState 3)) (time (heap exState 1)) \<and>
   tooClose (time (heap exState 3)) (time (heap exState 2)) \<and>
   time (heap exState 1) = Some 7200000 \<and>
   time (heap (fst (resolveConflicts exState 3)) (snd (resolveConflicts exState 3)))
     = Some 10800000 \<and>
   tasks (exState\<lparr>tasks := [0]\<rparr>) = [0] \<and>
   resolveConflicts (exState\<lparr>tasks := [0]\<rparr>) 3 = (exState\<lparr>tasks := [0]\<rparr>, 3)"
proof -
  have a: "tasks exState = [0] @ 1 # [2]" by (simp add: exState_def)
  have b: "\<not> tooClose (time (heap exState 3)) (time (heap exState 0))"
    by (simp add: exState_def oneHour_def tooClose_def)
  have c: "tooClose (time (heap exState 3)) (time (heap exState 1))"
    by (simp add: exState_def oneHour_def tooClose_def)
  have c': "tooClose (time (heap exState 3)) (time (heap exState 2))"
    by (simp add: exState_def oneHour_def tooClose_def)
  have d: "\<forall>p\<in>set (tasks (exState\<lparr>tasks := [0]\<rparr>)).
       \<not> tooClose (time (heap (exState\<lparr>tasks := [0]\<rparr>) 3)) (time (heap (exState\<lparr>tasks := [0]\<rparr>) p))"
    by (simp add: exState_def oneHour_def tooClose_def)
  have e: "time (heap exState 1) = Some 7200000"
    by (simp add: exState_def)
  from b have b': "\<forall>p\<in>set [0]. \<not> tooClose (time (heap exState 3)) (time (heap exState p))"
    by simp
  from resolveConflicts_policy [of exState 3] a b' c
  have "\<exists>b. time (heap exState 1) = Some b \<and>
        time (heap (fst (resolveConflicts exState 3)) (snd (resolveConflicts exState 3)))
          = Some (b + oneHour)" by blast
  with e have f: "time (heap (fst (resolveConflicts exState 3)) (snd (resolveConflicts exState 3)))
          = Some 10800000" by (simp add: oneHour_def)
  from resolveConflicts_policy [of "exState\<lparr>tasks := [0]\<rparr>" 3] d
  have "resolveConflicts (exState\<lparr>tasks := [0]\<rparr>) 3 = (exState\<lparr>tasks := [0]\<rparr>, 3)" by blast
  then show ?thesis using a b c c' e f by simp
qed

lemma scanTasks_frame: "r' \<noteq> r \<Longrightarrow> scanTasks h r t ts r' = h r'"
  by (induction ts) (simp_all add: Let_def)

lemma scanTasks_fields:
  "scanTasks h r t ts r = (h r)\<lparr>time := time (scanTasks h r t ts r)\<rparr>"
  by (induction ts) (simp_all add: Let_def)

lemma scanTasks_self:
  "r \<in> set ts \<Longrightarrow> time (h r) = Some a \<Longrightarrow>
   \<exists>b. time (scanTasks h r (Some a) ts r) = Some b \<and> a < b"
proof (induction ts)
  case Nil
  then show ?case by simp
next
  case (Cons e ts)
  show ?case
  proof (cases "tooClose (Some a) (time (h e))")
    case True
    then obtain b where b: "time (h e) = Some b" "\<bar>a - b\<bar> < oneHour"
      by (auto simp: tooClose_def split: option.splits)
    then have "a < b + oneHour" by simp
    with True b show ?thesis by (simp add: Let_def numLess_tooClose)
  next
    case False
    with Cons.prems have "r \<noteq> e" by (auto simp: tooClose_def oneHour_def)
    with Cons False show ?thesis by (simp add: Let_def numLess_tooClose)
  qed
qed

lemma scanTasks_unreadable: "scanTasks h r None ts = h"
  by (induction ts) (simp_all add: Let_def numLess_def mathAbs_def dateDiff_def)

text \<open>
  Claim C3, as the code has it. \<open>resolveConflicts\<close> returns the object it was given, not a
  copy. Of the whole state it can change one thing only, the \<open>time\<close> field of that object:
  the store, \<open>this.tasks\<close>, every other object and every other field stay as they were.
  When a task of the list is too close, that field is overwritten in place with the time
  of the first such task plus one hour; when none is, the state is returned unchanged.
\<close>

theorem resolveConflicts_in_place:
  "snd (resolveConflicts s newTask) = newTask \<and>
   db (fst (resolveConflicts s newTask)) = db s \<and>
   tasks (fst (resolveConflicts s newTask)) = tasks s \<and>
   nextRef (fst (resolveConflicts s newTask)) = nextRef s \<and>
   (\<forall>r. r \<noteq> newTask \<longrightarrow> heap (fst (resolveConflicts s newTask)) r = heap s r) \<and>
   heap (fst (resolveConflicts s newTask)) newTask =
     (heap s newTask)\<lparr>time := time (heap (fst (resolveConflicts s newTask)) newTask)\<rparr> \<and>
   (\<forall>pre e post.
      tasks s = pre @ e # post \<and>
      (\<forall>p\<in>set pre. \<not> tooClose (time (heap s newTask)) (time (heap s p))) \<and>
      tooClose (time (heap s newTask)) (time (heap s e)) \<longrightarrow>
      (\<exists>b. time (heap s e) = Some b \<and>
           heap (fst (resolveConflicts s newTask)) newTask
             = (heap s newTask)\<lparr>time := Some (b + oneHour)\<rparr>)) \<and>
   ((\<forall>p\<in>set (tasks s). \<not> tooClose (time (heap s newTask)) (time (heap s p))) \<longrightarrow>
      fst (resolveConflicts s newTask) = s)"
proof -
  have frame: "snd (resolveConflicts s newTask) = newTask \<and>
     db (fst (resolveConflicts s newTask)) = db s \<and>
     tasks (fst (resolveConflicts s newTask)) = tasks s \<and>
     nextRef (fst (resolveConflicts s newTask)) = nextRef s \<and>
     (\<forall>r. r \<noteq> newTask \<longrightarrow> heap (fst (resolveConflicts s newTask)) r = heap s r) \<and>
     heap (fst (resolveConflicts s newTask)) newTask =
       (heap s newTask)\<lparr>time := time (heap (fst (resolveConflicts s newTask)) newTask)\<rparr>"
    using scanTasks_fields [of "heap s" newTask "time (heap s newTask)" "tasks s"]
    by (simp add: resolveConflicts_def scanTasks_frame)
  have shift: "\<exists>b. time (heap s e) = Some b \<and>
           heap (fst (resolveConflicts s newTask)) newTask
             = (heap s newTask)\<lparr>time := Some (b + oneHour)\<rparr>"
    if a: "tasks s = pre @ e # post \<and>
      (\<forall>p\<in>set pre. \<not> tooClose (time (heap s newTask)) (time (heap s p))) \<and>
      tooClose (time (heap s newTask)) (time (heap s e))" for pre e post
  proof -
    from a obtain b where b: "time (heap s e) = Some b" using tooClose_readable by blast
    from a have "scanTasks (heap s) newTask (time (heap s newTask)) (tasks s)
      = (heap s)(newTask := (heap s newTask)\<lparr>time := map_option (\<lambda>b. b + oneHour) (time (heap s e))\<rparr>)"
      by (simp add: scanTasks_first_conflict)
    with b show ?thesis by (simp add: resolveConflicts_def)
  qed
  have same: "fst (resolveConflicts s newTask) = s"
    if "\<forall>p\<in>set (tasks s). \<not> tooClose (time (heap s newTask)) (time (heap s p))"
    using that by (simp add: resolveConflicts_def scanTasks_no_conflict)
  from frame shift same show ?thesis by blast
qed

theorem resolveConflicts_in_place_witness:
  "(0::nat) \<noteq> 3 \<and> heap (fst (resolveConflicts exState 3)) 0 = heap exState 0 \<and>
   tasks exState = [0] @ 1 # [2] \<and>
   \<not> tooClose (time (heap exState 3)) (time (heap exState 0)) \<and>
   tooClose (time (heap exState 3)) (time (heap exState 1)) \<and>
   time (heap exState 1) = Some 7200000 \<and>
   heap (fst (resolveConflicts exState 3)) 3 = (heap exState 3)\<lparr>time := Some 10800000\<rparr> \<and>
   \<not> tooClose (time (heap (exState\<lparr>tasks := [0]\<rparr>) 3)) (time (heap (exState\<lparr>tasks := [0]\<rparr>) 0)) \<and>
   fst (resolveConflicts (exState\<lparr>tasks := [0]\<rparr>) 3) = exState\<lparr>tasks := [0]\<rparr>"
proof -
  note t = resolveConflicts_in_place [of exState 3]
  note u = resolveConflicts_in_place [of "exState\<lparr>tasks := [0]\<rparr>" 3]
  have n: "(0::nat) \<noteq> 3" by simp
  have a: "tasks exState = [0] @ 1 # [2]" by (simp add: exState_def)
  have b: "\<not> tooClose (time (heap exState 3)) (time (heap exState 0))"
    by (simp add: exState_def oneHour_def tooClose_def)
  then have b': "\<forall>p\<in>set [0]. \<not> tooClose (time (heap exState 3)) (time (heap exState p))"
    by simp
  have c: "tooClose (time (heap exState 3)) (time (heap exState 1))"
    by (simp add: exState_def oneHour_def tooClose_def)
  have e: "time (heap exState 1) = Some 7200000" by (simp add: exState_def)
  have d: "\<not> tooClose (time (heap (exState\<lparr>tasks := [0]\<rparr>) 3)) (time (heap (exState\<lparr>tasks := [0]\<rparr>) 0))"
    by (simp add: exState_def oneHour_def tooClose_def)
  then have d': "\<forall>p\<in>set (tasks (exState\<lparr>tasks := [0]\<rparr>)).
       \<not> tooClose (time (heap (exState\<lparr>tasks := [0]\<rparr>) 3)) (time (heap (exState\<lparr>tasks := [0]\<rparr>) p))"
    by simp
  from t n have f0: "heap (fst (resolveConflicts exState 3)) 0 = heap exState 0" by blast
  from t a b' c have "\<exists>b. time (heap exState 1) = Some b \<and>
       heap (fst (resolveConflicts exState 3)) 3 = (heap exState 3)\<lparr>time := Some (b + oneHour)\<rparr>"
    by blast
  with e have f3: "heap (fst (resolveConflicts exState 3)) 3 = (heap exState 3)\<lparr>time := Some 10800000\<rparr>"
    by (simp add: oneHour_def)
  from u d' have g: "fst (resolveConflicts (exState\<lparr>tasks := [0]\<rparr>) 3) = exState\<lparr>tasks := [0]\<rparr>"
    by blast
  show ?thesis using n a b c e d f0 f3 g by simp
qed

text \<open>
  The claim as the specification words it (the task passed in keeps its \<open>time\<close>) fails: the
  object 3 of the example enters at 01:45 and is the returned object, now at 03:00.
\<close>

theorem resolveConflicts_mutates_input:
  "time (heap exState 3) = Some 6300000 \<and>
   snd (resolveConflicts exState 3) = 3 \<and>
   time (heap (fst (resolveConflicts exState 3)) 3) = Some 10800000"
  by (simp add: resolveConflicts_def exState_def oneHour_def numLess_def mathAbs_def dateDiff_def)

section \<open>Loading and the resolve-all button\<close>

lemma newObjects_props:
  "newObjects s ts = (s', rs) \<Longrightarrow>
     nextRef s' = nextRef s + length ts \<and>
     db s' = db s \<and> tasks s' = tasks s \<and>
     (\<forall>r < nextRef s. heap s' r = heap s r) \<and> map (heap s') rs = ts"
proof (induction ts arbitrary: s s' rs)
  case Nil
  then show ?case by simp
next
  case (Cons t ts)
  obtain s1 r where a: "newObject s t = (s1, r)" by fastforce
  obtain s2 rs2 where b: "newObjects s1 ts = (s2, rs2)" by fastforce
  from a have a': "r = nextRef s" "nextRef s1 = Suc (nextRef s)" "db s1 = db s" "tasks s1 = tasks s"
    "heap s1 = (heap s)(nextRef s := t)"
    by (auto simp: newObject_def)
  from Cons.IH [OF b] have ih:
    "nextRef s2 = nextRef s1 + length ts" "db s2 = db s1" "tasks s2 = tasks s1"
    "\<forall>r < nextRef s1. heap s2 r = heap s1 r" "map (heap s2) rs2 = ts" by auto
  from Cons.prems a b have c: "s' = s2" "rs = r # rs2" by auto
  have h: "heap s2 r = t" using ih(4) a' by simp
  have f: "\<forall>q < nextRef s. heap s2 q = heap s q" using ih(4) a' by simp
  show ?case using a'(2,3,4) ih(1,2,3,5) c h f by simp
qed

lemma view_loadTasks: "view (loadTasks s) = arraySort compareTime (getAll (db s))"
proof -
  obtain s1 rs where a: "newObjects s (arraySort compareTime (getAll (db s))) = (s1, rs)"
    by fastforce
  from newObjects_props [OF a] have "map (heap s1) rs = arraySort compareTime (getAll (db s))"
    by blast
  then show ?thesis by (simp add: loadTasks_def view_def a)
qed

lemma db_loadTasks: "db (loadTasks s) = db s"
proof -
  obtain s1 rs where a: "newObjects s (arraySort compareTime (getAll (db s))) = (s1, rs)"
    by fastforce
  from newObjects_props [OF a] have "db s1 = db s" by blast
  then show ?thesis by (simp add: loadTasks_def a)
qed

lemma db_resolveEach: "db (resolveEach s ts) = db s"
  by (induction ts arbitrary: s) (simp_all add: resolveConflicts_def)

lemma getAll_exStore:
  "getAll exStore =
     [blankTask\<lparr>task_id := Some 1, title := Some ''Business meeting'', time := Some 39600000\<rparr>,
      blankTask\<lparr>task_id := Some 2, title := Some ''Vet visit'', time := Some 36000000\<rparr>]"
  by (simp add: getAll_def exStore_def List.map_filter_simps upt_conv_Cons)

lemma sort_exStore:
  "arraySort compareTime (getAll exStore) =
     [blankTask\<lparr>task_id := Some 2, title := Some ''Vet visit'', time := Some 36000000\<rparr>,
      blankTask\<lparr>task_id := Some 1, title := Some ''Business meeting'', time := Some 39600000\<rparr>]"
  by (simp add: getAll_exStore arraySort_def compareTime_def dateDiff_def sortCompare_def
      blankTask_def)

text \<open>
  Claim C10. The handler of the resolve-all button passes every task of \<open>this.tasks\<close> to
  \<open>resolveConflicts\<close>. Each of them with a readable time is less than an hour from itself,
  so each such call moves the object's \<open>time\<close> forward (a task whose time is not readable is
  left alone); yet no call writes to the store, and the reload that ends the handler
  rebuilds \<open>this.tasks\<close> from the unchanged store. A list that agreed with the store before
  the click is the same list of records after it.
\<close>

theorem resolveConflictsClick_discards_shifts:
  "(\<forall>r\<in>set (tasks s). \<forall>a. time (heap s r) = Some a \<longrightarrow>
      (\<exists>b. time (heap (fst (resolveConflicts s r)) r) = Some b \<and> a < b)) \<and>
   (\<forall>r. time (heap s r) = None \<longrightarrow> resolveConflicts s r = (s, r)) \<and>
   db (resolveEach s (tasks s)) = db s \<and>
   db (resolveConflictsClick s) = db s \<and>
   view (resolveConflictsClick s) = arraySort compareTime (getAll (db s)) \<and>
   (view s = arraySort compareTime (getAll (db s)) \<longrightarrow> view (resolveConflictsClick s) = view s)"
  by (simp add: resolveConflictsClick_def db_loadTasks view_loadTasks db_resolveEach
      resolveConflicts_def scanTasks_self scanTasks_unreadable)

theorem resolveConflictsClick_discards_shifts_witness:
  "view exLoaded = arraySort compareTime (getAll (db exLoaded)) \<and>
   map time (view exLoaded) = [Some 36000000, Some 39600000] \<and>
   map time (view (resolveEach exLoaded (tasks exLoaded))) = [Some 39600000, Some 43200000] \<and>
   view (resolveConflictsClick exLoaded) = view exLoaded \<and>
   0 \<in> set (tasks exLoaded) \<and>
   time (heap exLoaded 0) = Some 36000000 \<and>
   (\<exists>b. time (heap (fst (resolveConflicts exLoaded 0)) 0) = Some b \<and> 36000000 < b)"
proof -
  have a: "view exLoaded = arraySort compareTime (getAll (db exLoaded))"
    by (simp add: exLoaded_def init_def view_loadTasks db_loadTasks)
  have b: "map time (view exLoaded) = [Some 36000000, Some 39600000]"
    by (simp add: exLoaded_def init_def view_loadTasks sort_exStore blankTask_def)
  have c: "map time (view (resolveEach exLoaded (tasks exLoaded)))
            = [Some 39600000, Some 43200000]"
    by (simp add: exLoaded_def init_def loadTasks_def sort_exStore newObject_def blankTask_def
        view_def resolveConflicts_def oneHour_def numLess_def mathAbs_def dateDiff_def)
  have d: "0 \<in> set (tasks exLoaded)"
    by (simp add: exLoaded_def init_def loadTasks_def sort_exStore newObject_def)
  have e: "time (heap exLoaded 0) = Some 36000000"
    by (simp add: exLoaded_def init_def loadTasks_def sort_exStore newObject_def blankTask_def)
  from resolveConflictsClick_discards_shifts [of exLoaded] a d e
  have "view (resolveConflictsClick exLoaded) = view exLoaded \<and>
        (\<exists>b. time (heap (fst (resolveConflicts exLoaded 0)) 0) = Some b \<and> 36000000 < b)"
    by blast
  with a b c d e show ?thesis by simp
qed

section \<open>Batches of candidates\<close>

lemma scanTasks_resolvedTime:
  "t = time (h r) \<Longrightarrow> time (scanTasks h r t ts r) = resolvedTime (map h ts) t"
  by (induction ts) (simp_all add: Let_def resolvedTime_def numLess_tooClose)

lemma map_filter_cong_set:
  "\<forall>x\<in>set xs. f x = g x \<Longrightarrow> List.map_filter f xs = List.map_filter g xs"
  by (induction xs) (auto simp: List.map_filter_simps split: option.splits)

lemma map_filter_snoc:
  "List.map_filter f (xs @ [x]) = List.map_filter f xs @ (case f x of None \<Rightarrow> [] | Some y \<Rightarrow> [y])"
  by (induction xs) (simp_all add: List.map_filter_simps split: option.splits)

lemma getAll_add:
  "getAll (os\<lparr>records := (records os)(keyGen os \<mapsto> t), keyGen := Suc (keyGen os)\<rparr>)
     = getAll os @ [t]"
proof -
  have "List.map_filter ((records os)(keyGen os \<mapsto> t)) [0..<keyGen os]
        = List.map_filter (records os) [0..<keyGen os]"
    by (rule map_filter_cong_set) simp
  then show ?thesis by (simp add: getAll_def map_filter_snoc)
qed

lemma processed_no_null: "processed (map Some cs) = cs"
  by (induction cs) simp_all

lemma processed_until_null: "processed (map Some pre @ None # rest) = pre"
  by (induction pre) simp_all

lemma addTasksLoop_stores:
  "wellFormed s \<Longrightarrow>
   \<exists>s'. addTasksLoop clock n s batch = ((if None \<in> set batch then Some TypeError else None), s') \<and>
        tasks s' = tasks s \<and> view s' = view s \<and> wellFormed s' \<and>
        getAll (db s') = getAll (db s) @
          storedTasks clock n (view s) (keyGen (db s)) (processed batch)"
proof (induction batch arbitrary: s n)
  case Nil
  then show ?case by simp
next
  case (Cons element rest)
  show ?case
  proof (cases element)
    case None
    with Cons.prems show ?thesis by simp
  next
    case (Some c)
    let ?t = "\<lparr>task_id = None, title = info_title c, time = info_time c,
               description = (case info_description c of None \<Rightarrow> [] | Some d \<Rightarrow> d),
               created = clock n\<rparr>"
    let ?r = "nextRef s"
    let ?s1 = "s\<lparr>heap := (heap s)(?r := ?t), nextRef := Suc ?r\<rparr>"
    let ?h2 = "scanTasks (heap ?s1) ?r (time (heap ?s1 ?r)) (tasks s)"
    let ?s2 = "?s1\<lparr>heap := ?h2\<rparr>"
    let ?k = "keyGen (db s)"
    let ?s3 = "?s2\<lparr>db := (db s)\<lparr>records := (records (db s))(?k \<mapsto> (?h2 ?r)\<lparr>task_id := Some ?k\<rparr>),
                              keyGen := Suc ?k\<rparr>\<rparr>"
    from Cons.prems have fresh: "?r \<notin> set (tasks s)"
      by (auto simp: wellFormed_def list_all_iff)
    have v1: "map (heap ?s1) (tasks s) = view s"
      using fresh by (auto simp: view_def)
    have h2r: "?h2 ?r = ?t\<lparr>time := resolvedTime (view s) (info_time c)\<rparr>"
      using scanTasks_fields [of "heap ?s1" ?r "time (heap ?s1 ?r)" "tasks s"]
            scanTasks_resolvedTime [of "time (heap ?s1 ?r)" "heap ?s1" ?r "tasks s"] v1
      by simp
    have idt: "task_id (?h2 ?r) = None"
      using h2r by simp
    have step: "addTasksLoop clock n s (element # rest) = addTasksLoop clock (Suc n) ?s3 rest"
      using idt Some
      by (simp add: newObject_def resolveConflicts_def saveTask_def store_add_def Let_def)
    have ne: "\<And>x. x \<in> set (tasks s) \<Longrightarrow> x \<noteq> ?r"
      using fresh by auto
    have v3: "view ?s3 = view s"
      by (simp add: view_def scanTasks_frame ne)
    have wf3: "wellFormed ?s3"
      using Cons.prems by (auto simp: wellFormed_def list_all_iff)
    have g3: "getAll (db ?s3) = getAll (db s) @ [storedTask (clock n) (view s) ?k c]"
      using h2r getAll_add [of "db s" "(?h2 ?r)\<lparr>task_id := Some ?k\<rparr>"]
      by (simp add: storedTask_def)
    from Cons.IH [OF wf3, of "Suc n"] obtain s' where ih:
      "addTasksLoop clock (Suc n) ?s3 rest
         = ((if None \<in> set rest then Some TypeError else None), s')"
      "tasks s' = tasks ?s3" "view s' = view ?s3" "wellFormed s'"
      "getAll (db s') = getAll (db ?s3) @
          storedTasks clock (Suc n) (view ?s3) (keyGen (db ?s3)) (processed rest)"
      by blast
    have k3: "keyGen (db ?s3) = Suc ?k" by simp
    show ?thesis
      unfolding step
      using ih(1,2,4) ih(3)[unfolded v3] ih(5)[unfolded v3 k3 g3] Some
      by simp
  qed
qed

lemma addTasksFromAI_stores:
  assumes "wellFormed s"
  shows "fst (addTasksFromAI clock s batch) = (if None \<in> set batch then Some TypeError else None) \<and>
         getAll (db (snd (addTasksFromAI clock s batch))) = getAll (db s) @
           storedTasks clock 0 (view s) (keyGen (db s)) (processed batch) \<and>
         (None \<notin> set batch \<longrightarrow>
            view (snd (addTasksFromAI clock s batch))
              = arraySort compareTime (getAll (db (snd (addTasksFromAI clock s batch))))) \<and>
         (None \<in> set batch \<longrightarrow>
            tasks (snd (addTasksFromAI clock s batch)) = tasks s \<and>
            view (snd (addTasksFromAI clock s batch)) = view s)"
proof -
  from addTasksLoop_stores [OF assms, of clock 0 batch] obtain s1 where a:
    "addTasksLoop clock 0 s batch = ((if None \<in> set batch then Some TypeError else None), s1)"
    "tasks s1 = tasks s" "view s1 = view s"
    "getAll (db s1) = getAll (db s) @
       storedTasks clock 0 (view s) (keyGen (db s)) (processed batch)"
    by blast
  show ?thesis
    by (simp add: addTasksFromAI_def a view_loadTasks db_loadTasks)
qed

lemma time_storedTasks:
  "map time (storedTasks clock n existing key cs)
     = map (\<lambda>c. resolvedTime existing (info_time c)) cs"
  by (induction cs arbitrary: n key) (simp_all add: storedTask_def)

lemma title_storedTasks: "map title (storedTasks clock n existing key cs) = map info_title cs"
  by (induction cs arbitrary: n key) (simp_all add: storedTask_def)

lemma id_storedTasks:
  "map task_id (storedTasks clock n existing key cs) = map Some [key ..< key + length cs]"
  by (induction cs arbitrary: n key) (simp_all add: storedTask_def upt_rec)









lemma wellFormed_loadTasks_aux:
  "newObjects s ts = (s', rs) \<Longrightarrow> \<forall>r\<in>set rs. r < nextRef s'"
proof (induction ts arbitrary: s s' rs)
  case Nil
  then show ?case by simp
next
  case (Cons t ts)
  obtain s1 r where a: "newObject s t = (s1, r)" by fastforce
  obtain s2 rs2 where b: "newObjects s1 ts = (s2, rs2)" by fastforce
  from a have a': "r = nextRef s" "nextRef s1 = Suc (nextRef s)" by (auto simp: newObject_def)
  from newObjects_props [OF b] have n: "nextRef s2 = nextRef s1 + length ts" by blast
  from Cons.prems a b have c: "s' = s2" "rs = r # rs2" by auto
  from Cons.IH [OF b] show ?case using a' n c by simp
qed

lemma wellFormed_loadTasks: "wellFormed (loadTasks s)"
proof -
  obtain s1 rs where a: "newObjects s (arraySort compareTime (getAll (db s))) = (s1, rs)"
    by fastforce
  from wellFormed_loadTasks_aux [OF a] show ?thesis
    by (simp add: loadTasks_def a wellFormed_def list_all_iff)
qed

lemma wellFormed_init: "wellFormed (init os)"
  by (simp add: init_def wellFormed_loadTasks)





lemma getAll_emptyStore: "getAll emptyStore = []"
  by (simp add: getAll_def emptyStore_def List.map_filter_simps upt_conv_Cons)

lemma view_init_empty: "view (init emptyStore) = []"
  by (simp add: init_def view_loadTasks getAll_emptyStore arraySort_def)


lemma view_exLoaded:
  "view exLoaded =
     [blankTask\<lparr>task_id := Some 2, title := Some ''Vet visit'', time := Some 36000000\<rparr>,
      blankTask\<lparr>task_id := Some 1, title := Some ''Business meeting'', time := Some 39600000\<rparr>]"
  by (simp add: exLoaded_def init_def view_loadTasks sort_exStore)





text \<open>
  Claim C2, as the code has it. \<open>this.tasks\<close> is reloaded once, after the whole batch is
  saved. Every candidate of a batch is therefore resolved against the list as it was loaded
  before the batch: the record stored for it carries \<open>resolvedTime\<close> of its time against
  that list, whatever the same batch stored before it. This holds of every candidate that
  is reached, that is, of those before the first \<open>null\<close> if there is one; a batch of
  objects ends without an error and all of it is reached.
\<close>

theorem batch_resolved_against_loaded_list:
  assumes "wellFormed s"
  shows "getAll (db (snd (addTasksFromAI clock s batch)))
           = getAll (db s) @ storedTasks clock 0 (view s) (keyGen (db s)) (processed batch) \<and>
         map time (drop (length (getAll (db s))) (getAll (db (snd (addTasksFromAI clock s batch)))))
           = map (\<lambda>c. resolvedTime (view s) (info_time c)) (processed batch) \<and>
         (\<forall>cs. batch = map Some cs \<longrightarrow>
            fst (addTasksFromAI clock s batch) = None \<and> processed batch = cs)"
proof -
  from addTasksFromAI_stores [OF assms, of clock batch] have a:
    "fst (addTasksFromAI clock s batch) = (if None \<in> set batch then Some TypeError else None)"
    "getAll (db (snd (addTasksFromAI clock s batch)))
       = getAll (db s) @ storedTasks clock 0 (view s) (keyGen (db s)) (processed batch)"
    by blast+
  have "\<forall>cs. batch = map Some cs \<longrightarrow>
          fst (addTasksFromAI clock s batch) = None \<and> processed batch = cs"
    using a(1) by (auto simp: processed_no_null)
  then show ?thesis using a(2) by (simp add: time_storedTasks)
qed

theorem batch_resolved_against_loaded_list_witness:
  "wellFormed exLoaded \<and>
   [Some (candidate (Some ''Dentist'') (Some 37800000)),
    Some (candidate (Some ''Lunch'') (Some 50400000)),
    Some (candidate (Some ''Call'') (Some 50400000))]
     = map Some [candidate (Some ''Dentist'') (Some 37800000),
                 candidate (Some ''Lunch'') (Some 50400000),
                 candidate (Some ''Call'') (Some 50400000)] \<and>
   fst (addTasksFromAI (\<lambda>n. 0) exLoaded
          [Some (candidate (Some ''Dentist'') (Some 37800000)),
           Some (candidate (Some ''Lunch'') (Some 50400000)),
           Some (candidate (Some ''Call'') (Some 50400000))]) = None \<and>
   map time (drop (length (getAll (db exLoaded)))
     (getAll (db (snd (addTasksFromAI (\<lambda>n. 0) exLoaded
          [Some (candidate (Some ''Dentist'') (Some 37800000)),
           Some (candidate (Some ''Lunch'') (Some 50400000)),
           Some (candidate (Some ''Call'') (Some 50400000))])))))
     = [Some 39600000, Some 50400000, Some 50400000]"
proof -
  let ?cs = "[candidate (Some ''Dentist'') (Some 37800000),
              candidate (Some ''Lunch'') (Some 50400000),
              candidate (Some ''Call'') (Some 50400000)]"
  have a: "wellFormed exLoaded" by (simp add: exLoaded_def wellFormed_init)
  have m: "[Some (candidate (Some ''Dentist'') (Some 37800000)),
            Some (candidate (Some ''Lunch'') (Some 50400000)),
            Some (candidate (Some ''Call'') (Some 50400000))] = map Some ?cs" by simp
  have b: "map (\<lambda>c. resolvedTime (view exLoaded) (info_time c)) ?cs
             = [Some 39600000, Some 50400000, Some 50400000]"
    by (simp add: view_exLoaded resolvedTime_def tooClose_def candidate_def blankTask_def
        oneHour_def)
  note t = batch_resolved_against_loaded_list [OF a, of "\<lambda>n. 0" "map Some ?cs"]
  note t2 = t [THEN conjunct2, THEN conjunct1]
  note t3 = t [THEN conjunct2, THEN conjunct2, rule_format, OF refl]
  have p: "processed (map Some ?cs) = ?cs" by (rule t3 [THEN conjunct2])
  have f: "fst (addTasksFromAI (\<lambda>n. 0) exLoaded
          [Some (candidate (Some ''Dentist'') (Some 37800000)),
           Some (candidate (Some ''Lunch'') (Some 50400000)),
           Some (candidate (Some ''Call'') (Some 50400000))]) = None"
    using t3 [THEN conjunct1] by (simp only: m)
  have r: "map time (drop (length (getAll (db exLoaded)))
     (getAll (db (snd (addTasksFromAI (\<lambda>n. 0) exLoaded
          [Some (candidate (Some ''Dentist'') (Some 37800000)),
           Some (candidate (Some ''Lunch'') (Some 50400000)),
           Some (candidate (Some ''Call'') (Some 50400000))])))))
     = [Some 39600000, Some 50400000, Some 50400000]"
    using t2 [unfolded p b] by (simp only: m)
  show ?thesis by (intro conjI a m f r)
qed

text \<open>
  Claim C2 as the specification words it fails: two candidates of one batch at the same
  time, into an empty store, are both kept at that time.
\<close>

theorem same_batch_conflict_not_shifted:
  "map time
     (view (snd (addTasksFromAI (\<lambda>n. 0) (init emptyStore)
        [Some (candidate (Some ''Business meeting'') (Some 39600000)),
         Some (candidate (Some ''Vet visit'') (Some 39600000))])))
   = [Some 39600000, Some 39600000]"
  by (simp add: addTasksFromAI_def init_def loadTasks_def getAll_emptyStore newObject_def
      resolveConflicts_def saveTask_def store_add_def candidate_def emptyStore_def
      view_def getAll_def List.map_filter_simps upt_conv_Cons arraySort_def compareTime_def
      dateDiff_def sortCompare_def)

text \<open>
  Claim C9, as the code has it. No candidate is validated or skipped for its title: every
  candidate before the first \<open>null\<close> of the batch is stored, in order, with its title
  present or absent. A batch of objects ends without an error and all of it is stored. A
  \<open>null\<close> candidate ends the batch with a \<open>TypeError\<close>: what came before it stays
  stored, it and what follows it are not, and the list is not reloaded.
\<close>

theorem every_candidate_persisted:
  assumes "wellFormed s"
  shows "getAll (db (snd (addTasksFromAI clock s batch)))
           = getAll (db s) @ storedTasks clock 0 (view s) (keyGen (db s)) (processed batch) \<and>
         map title (getAll (db (snd (addTasksFromAI clock s batch))))
           = map title (getAll (db s)) @ map info_title (processed batch) \<and>
         length (getAll (db (snd (addTasksFromAI clock s batch))))
           = length (getAll (db s)) + length (processed batch) \<and>
         (\<forall>cs. batch = map Some cs \<longrightarrow>
            fst (addTasksFromAI clock s batch) = None \<and> processed batch = cs) \<and>
         (\<forall>pre rest. batch = map Some pre @ None # rest \<longrightarrow>
            fst (addTasksFromAI clock s batch) = Some TypeError \<and> processed batch = pre \<and>
            tasks (snd (addTasksFromAI clock s batch)) = tasks s \<and>
            view (snd (addTasksFromAI clock s batch)) = view s)"
proof -
  from addTasksFromAI_stores [OF assms, of clock batch] have a:
    "fst (addTasksFromAI clock s batch) = (if None \<in> set batch then Some TypeError else None)"
    "getAll (db (snd (addTasksFromAI clock s batch)))
       = getAll (db s) @ storedTasks clock 0 (view s) (keyGen (db s)) (processed batch)"
    "None \<in> set batch \<longrightarrow>
            tasks (snd (addTasksFromAI clock s batch)) = tasks s \<and>
            view (snd (addTasksFromAI clock s batch)) = view s"
    by blast+
  have l: "length (storedTasks clock 0 (view s) (keyGen (db s)) (processed batch))
           = length (processed batch)"
    using title_storedTasks [of clock 0 "view s" "keyGen (db s)" "processed batch"]
    by (metis length_map)
  have b: "\<forall>cs. batch = map Some cs \<longrightarrow>
          fst (addTasksFromAI clock s batch) = None \<and> processed batch = cs"
    using a(1) by (auto simp: processed_no_null)
  have c: "\<forall>pre rest. batch = map Some pre @ None # rest \<longrightarrow>
            fst (addTasksFromAI clock s batch) = Some TypeError \<and> processed batch = pre \<and>
            tasks (snd (addTasksFromAI clock s batch)) = tasks s \<and>
            view (snd (addTasksFromAI clock s batch)) = view s"
    using a(1,3) by (auto simp: processed_until_null)
  show ?thesis using a(2) b c l by (simp add: title_storedTasks)
qed

theorem every_candidate_persisted_witness:
  "wellFormed (init emptyStore) \<and>
   [Some (candidate None (Some 39600000)), None, Some (candidate (Some ''Vet visit'') (Some 50400000))]
     = map Some [candidate None (Some 39600000)] @ None
         # [Some (candidate (Some ''Vet visit'') (Some 50400000))] \<and>
   fst (addTasksFromAI (\<lambda>n. 0) (init emptyStore)
          [Some (candidate None (Some 39600000)), None,
           Some (candidate (Some ''Vet visit'') (Some 50400000))]) = Some TypeError \<and>
   map title (getAll (db (snd (addTasksFromAI (\<lambda>n. 0) (init emptyStore)
          [Some (candidate None (Some 39600000)), None,
           Some (candidate (Some ''Vet visit'') (Some 50400000))])))) = [None] \<and>
   view (snd (addTasksFromAI (\<lambda>n. 0) (init emptyStore)
          [Some (candidate None (Some 39600000)), None,
           Some (candidate (Some ''Vet visit'') (Some 50400000))])) = [] \<and>
   [Some (candidate None (Some 39600000)), Some (candidate (Some ''Vet visit'') (Some 50400000))]
     = map Some [candidate None (Some 39600000), candidate (Some ''Vet visit'') (Some 50400000)] \<and>
   fst (addTasksFromAI (\<lambda>n. 0) (init emptyStore)
          [Some (candidate None (Some 39600000)),
           Some (candidate (Some ''Vet visit'') (Some 50400000))]) = None \<and>
   map title (getAll (db (snd (addTasksFromAI (\<lambda>n. 0) (init emptyStore)
          [Some (candidate None (Some 39600000)),
           Some (candidate (Some ''Vet visit'') (Some 50400000))]))))
     = [None, Some ''Vet visit'']"
proof -
  let ?a = "candidate None (Some 39600000)"
  let ?b = "candidate (Some ''Vet visit'') (Some 50400000)"
  have w: "wellFormed (init emptyStore)" by (rule wellFormed_init)
  have g: "getAll (db (init emptyStore)) = []"
    by (simp add: init_def db_loadTasks getAll_emptyStore)
  have m1: "[Some ?a, None, Some ?b] = map Some [?a] @ None # [Some ?b]" by simp
  have m2: "[Some ?a, Some ?b] = map Some [?a, ?b]" by simp
  note t1 = every_candidate_persisted [OF w, of "\<lambda>n. 0" "[Some ?a, None, Some ?b]"]
  note t2 = every_candidate_persisted [OF w, of "\<lambda>n. 0" "[Some ?a, Some ?b]"]
  note n1 = t1 [THEN conjunct2, THEN conjunct2, THEN conjunct2, THEN conjunct2, rule_format, OF m1]
  note n2 = t2 [THEN conjunct2, THEN conjunct2, THEN conjunct2, THEN conjunct1, rule_format, OF m2]
  have f1: "fst (addTasksFromAI (\<lambda>n. 0) (init emptyStore) [Some ?a, None, Some ?b])
      = Some TypeError" by (rule n1 [THEN conjunct1])
  have p1: "processed [Some ?a, None, Some ?b] = [?a]" by (rule n1 [THEN conjunct2, THEN conjunct1])
  have v1: "view (snd (addTasksFromAI (\<lambda>n. 0) (init emptyStore) [Some ?a, None, Some ?b])) = []"
    using n1 [THEN conjunct2, THEN conjunct2, THEN conjunct2] by (simp only: view_init_empty)
  have q1: "map title (getAll (db (snd (addTasksFromAI (\<lambda>n. 0) (init emptyStore)
        [Some ?a, None, Some ?b])))) = [None]"
    using t1 [THEN conjunct2, THEN conjunct1] by (simp only: p1 g) (simp add: candidate_def)
  have f2: "fst (addTasksFromAI (\<lambda>n. 0) (init emptyStore) [Some ?a, Some ?b]) = None"
    by (rule n2 [THEN conjunct1])
  have p2: "processed [Some ?a, Some ?b] = [?a, ?b]" by (rule n2 [THEN conjunct2])
  have q2: "map title (getAll (db (snd (addTasksFromAI (\<lambda>n. 0) (init emptyStore)
        [Some ?a, Some ?b])))) = [None, Some ''Vet visit'']"
    using t2 [THEN conjunct2, THEN conjunct1] by (simp only: p2 g) (simp add: candidate_def)
  show ?thesis by (intro conjI w m1 f1 q1 v1 m2 f2 q2)
qed

text \<open>
  Claim C9 as the specification words it fails: a candidate without title is stored, with
  no title, and no error is raised for it.
\<close>

theorem untitled_candidate_persisted:
  "fst (addTasksFromAI (\<lambda>n. 0) (init emptyStore) [Some (candidate None (Some 39600000))]) = None \<and>
   getAll (db (snd (addTasksFromAI (\<lambda>n. 0) (init emptyStore)
     [Some (candidate None (Some 39600000))])))
   = [\<lparr>task_id = Some 1, title = None, time = Some 39600000, description = [], created = 0\<rparr>]"
  by (simp add: addTasksFromAI_def init_def loadTasks_def getAll_emptyStore newObject_def
      resolveConflicts_def saveTask_def store_add_def candidate_def emptyStore_def
      view_def getAll_def List.map_filter_simps upt_conv_Cons arraySort_def)

section \<open>Reordering by drag and drop\<close>

lemma nine_div_day: "(9 * oneHour) div msPerDay = 0" "(9 * oneHour) mod msPerDay = 9 * oneHour"
  by (simp_all add: oneHour_def msPerDay_def)

lemma localMidnight_startTime:
  "localMidnight tz (setHours tz now 9 0 0 0) = localMidnight tz now"
proof -
  have d: "msPerDay \<noteq> 0" by (simp add: msPerDay_def)
  have "((now + tz) div msPerDay * msPerDay + 9 * oneHour) div msPerDay
        = (now + tz) div msPerDay + (9 * oneHour) div msPerDay"
    using d by simp
  then show ?thesis
    by (simp add: localMidnight_def setHours_def nine_div_day)
qed

lemma getHours_startTime: "getHours tz (setHours tz now 9 0 0 0) = 9"
proof -
  have "((now + tz) div msPerDay * msPerDay + 9 * oneHour) mod msPerDay
        = (9 * oneHour) mod msPerDay"
    by simp
  moreover have "(9 * oneHour) div oneHour = 9" by (simp add: oneHour_def)
  ultimately show ?thesis
    by (simp add: getHours_def localMidnight_def setHours_def nine_div_day)
qed

lemma minutes_startTime: "(setHours tz now 9 0 0 0 + tz) mod oneHour = 0"
proof -
  have "msPerDay = 24 * oneHour" by (simp add: msPerDay_def oneHour_def)
  then have "(now + tz) div msPerDay * msPerDay + 9 * oneHour
        = ((now + tz) div msPerDay * 24 + 9) * oneHour"
    by (simp add: algebra_simps)
  then have "((now + tz) div msPerDay * msPerDay + 9 * oneHour) mod oneHour = 0"
    by simp
  then show ?thesis
    by (simp add: localMidnight_def setHours_def)
qed

lemma newTime_position:
  "setHoursOnly tz (setHours tz now 9 0 0 0) (getHours tz (setHours tz now 9 0 0 0) + int i)
     = localMidnight tz now + (9 + int i) * oneHour - tz"
  by (simp add: setHoursOnly_def localMidnight_startTime getHours_startTime minutes_startTime)

lemma reorderLoop_frame:
  "tasks (reorderLoop tz st s i order) = tasks s \<and>
   (\<forall>r. task_id (heap (reorderLoop tz st s i order) r) = task_id (heap s r)) \<and>
   (\<forall>key. key \<notin> set order \<longrightarrow>
      records (db (reorderLoop tz st s i order)) key = records (db s) key)"
proof (induction order arbitrary: s i)
  case Nil
  show ?case by simp
next
  case (Cons taskId rest)
  show ?case
  proof (cases "find (\<lambda>t. task_id (heap s t) = Some taskId) (tasks s)")
    case None
    then show ?thesis using Cons.IH [of s "Suc i"] by simp
  next
    case (Some task)
    then have tid: "task_id (heap s task) = Some taskId"
      by (auto simp: find_Some_iff)
    let ?nt = "setHoursOnly tz st (getHours tz st + int i)"
    let ?s1 = "s\<lparr>heap := (heap s)(task := (heap s task)\<lparr>time := Some ?nt\<rparr>)\<rparr>"
    let ?s2 = "updateTask ?s1 task"
    have step: "reorderLoop tz st s i (taskId # rest) = reorderLoop tz st ?s2 (Suc i) rest"
      using Some by (simp add: Let_def)
    have t2: "tasks ?s2 = tasks s" by (simp add: updateTask_def)
    have h2: "\<forall>r. task_id (heap ?s2 r) = task_id (heap s r)"
      by (simp add: updateTask_def)
    have d2: "\<forall>key. key \<noteq> taskId \<longrightarrow> records (db ?s2) key = records (db s) key"
      using tid by (simp add: updateTask_def store_put_def)
    from Cons.IH [of ?s2 "Suc i"] show ?thesis
      unfolding step using t2 h2 d2 by auto
  qed
qed

lemma find_cong_ids:
  "\<forall>r. task_id (h' r) = task_id (h r) \<Longrightarrow>
   find (\<lambda>t. task_id (h' t) = Some k) ts = find (\<lambda>t. task_id (h t) = Some k) ts"
  by simp

lemma reorderLoop_positions:
  "j < length order \<Longrightarrow> order ! j \<notin> set (drop (Suc j) order) \<Longrightarrow>
   find (\<lambda>t. task_id (heap s t) = Some (order ! j)) (tasks s) = Some task \<Longrightarrow>
   records (db (reorderLoop tz st s i order)) (order ! j)
     = Some ((heap s task)\<lparr>time := Some (setHoursOnly tz st (getHours tz st + int (i + j)))\<rparr>)"
proof (induction order arbitrary: s i j)
  case Nil
  then show ?case by simp
next
  case (Cons taskId rest)
  show ?case
  proof (cases j)
    case 0
    with Cons.prems have nin: "taskId \<notin> set rest"
      and f: "find (\<lambda>t. task_id (heap s t) = Some taskId) (tasks s) = Some task"
      by simp_all
    then have tid: "task_id (heap s task) = Some taskId" by (auto simp: find_Some_iff)
    let ?nt = "setHoursOnly tz st (getHours tz st + int i)"
    let ?s1 = "s\<lparr>heap := (heap s)(task := (heap s task)\<lparr>time := Some ?nt\<rparr>)\<rparr>"
    let ?s2 = "updateTask ?s1 task"
    have step: "reorderLoop tz st s i (taskId # rest) = reorderLoop tz st ?s2 (Suc i) rest"
      using f by (simp add: Let_def)
    have "records (db ?s2) taskId = Some ((heap s task)\<lparr>time := Some ?nt\<rparr>)"
      using tid by (simp add: updateTask_def store_put_def)
    moreover from reorderLoop_frame [of tz st ?s2 "Suc i" rest] nin
    have "records (db (reorderLoop tz st ?s2 (Suc i) rest)) taskId = records (db ?s2) taskId"
      by blast
    ultimately show ?thesis unfolding step using 0 by simp
  next
    case (Suc j')
    with Cons.prems have j': "j' < length rest"
      and last: "rest ! j' \<notin> set (drop (Suc j') rest)"
      and f: "find (\<lambda>t. task_id (heap s t) = Some (rest ! j')) (tasks s) = Some task"
      by auto
    show ?thesis
    proof (cases "find (\<lambda>t. task_id (heap s t) = Some taskId) (tasks s)")
      case None
      then have step: "reorderLoop tz st s i (taskId # rest) = reorderLoop tz st s (Suc i) rest"
        by simp
      from Cons.IH [OF j' last f, of "Suc i"] show ?thesis unfolding step using Suc by simp
    next
      case (Some task0)
      let ?nt = "setHoursOnly tz st (getHours tz st + int i)"
      let ?s1 = "s\<lparr>heap := (heap s)(task0 := (heap s task0)\<lparr>time := Some ?nt\<rparr>)\<rparr>"
      let ?s2 = "updateTask ?s1 task0"
      have step: "reorderLoop tz st s i (taskId # rest) = reorderLoop tz st ?s2 (Suc i) rest"
        using Some by (simp add: Let_def)
      have ids: "\<forall>r. task_id (heap ?s2 r) = task_id (heap s r)" by (simp add: updateTask_def)
      have f2: "find (\<lambda>t. task_id (heap ?s2 t) = Some (rest ! j')) (tasks ?s2) = Some task"
        using f find_cong_ids [OF ids, of "rest ! j'" "tasks s"] by (simp add: updateTask_def)
      have h2: "(heap ?s2 task)\<lparr>time := x\<rparr> = (heap s task)\<lparr>time := x\<rparr>" for x
        by (simp add: updateTask_def)
      from Cons.IH [OF j' last f2, of "Suc i"] show ?thesis unfolding step using Suc h2 by simp
    qed
  qed
qed

text \<open>
  Claim C6. The task found for the id at position \<open>i\<close> is stored with local time 09:00 of
  today plus \<open>i\<close> hours, all its other fields as they were; should an id occur again
  further down the list, the later position is the one that counts, and in a list of
  distinct ids, as the page produces it, every position counts. A record whose id is not
  among the supplied ids is not touched. The list is reloaded from the store at the end.
\<close>

theorem handleTaskReorder_times:
  "(\<forall>i<length order. \<forall>task.
      order ! i \<notin> set (drop (Suc i) order) \<and>
      find (\<lambda>t. task_id (heap s t) = Some (order ! i)) (tasks s) = Some task \<longrightarrow>
      records (db (handleTaskReorder tz now s order)) (order ! i)
        = Some ((heap s task)\<lparr>time := Some (localMidnight tz now + (9 + int i) * oneHour - tz)\<rparr>)) \<and>
   (distinct order \<longrightarrow> (\<forall>i<length order. order ! i \<notin> set (drop (Suc i) order))) \<and>
   (\<forall>key. key \<notin> set order \<longrightarrow>
      records (db (handleTaskReorder tz now s order)) key = records (db s) key) \<and>
   view (handleTaskReorder tz now s order)
      = arraySort compareTime (getAll (db (handleTaskReorder tz now s order)))"
proof -
  let ?st = "setHours tz now 9 0 0 0"
  have d: "db (handleTaskReorder tz now s order) = db (reorderLoop tz ?st s 0 order)"
    by (simp add: handleTaskReorder_def db_loadTasks)
  have a: "\<forall>i<length order. \<forall>task.
            order ! i \<notin> set (drop (Suc i) order) \<and>
            find (\<lambda>t. task_id (heap s t) = Some (order ! i)) (tasks s) = Some task \<longrightarrow>
            records (db (reorderLoop tz ?st s 0 order)) (order ! i)
              = Some ((heap s task)\<lparr>time := Some (localMidnight tz now + (9 + int i) * oneHour - tz)\<rparr>)"
    using reorderLoop_positions [of _ order s _ tz ?st 0]
    by (simp add: newTime_position)
  have b: "\<forall>key. key \<notin> set order \<longrightarrow>
            records (db (reorderLoop tz ?st s 0 order)) key = records (db s) key"
    using reorderLoop_frame [of tz ?st s 0 order] by blast
  have c: "view (handleTaskReorder tz now s order)
            = arraySort compareTime (getAll (db (handleTaskReorder tz now s order)))"
    by (simp add: handleTaskReorder_def view_loadTasks db_loadTasks)
  have e: "distinct order \<longrightarrow> (\<forall>i<length order. order ! i \<notin> set (drop (Suc i) order))"
    by (auto simp: distinct_conv_nth in_set_conv_nth)
  show ?thesis unfolding d using a b c [unfolded d] e by blast
qed

theorem handleTaskReorder_times_witness:
  "distinct [1, 2 :: nat] \<and> (0::nat) < length [1, 2 :: nat] \<and> (1::nat) < length [1, 2 :: nat] \<and>
   find (\<lambda>t. task_id (heap exLoaded t) = Some ([1, 2] ! 0)) (tasks exLoaded) = Some 1 \<and>
   find (\<lambda>t. task_id (heap exLoaded t) = Some ([1, 2] ! 1)) (tasks exLoaded) = Some 0 \<and>
   records (db (handleTaskReorder (- 10800000) 86450000000 exLoaded [1, 2])) 1
     = Some ((heap exLoaded 1)\<lparr>time := Some 86443200000\<rparr>) \<and>
   records (db (handleTaskReorder (- 10800000) 86450000000 exLoaded [1, 2])) 2
     = Some ((heap exLoaded 0)\<lparr>time := Some 86446800000\<rparr>) \<and>
   3 \<notin> set [1, 2 :: nat] \<and>
   records (db (handleTaskReorder (- 10800000) 86450000000 exLoaded [1, 2])) 3
     = records (db exLoaded) 3"
proof -
  have d: "distinct [1, 2 :: nat]" by simp
  have f0: "find (\<lambda>t. task_id (heap exLoaded t) = Some ([1, 2] ! 0)) (tasks exLoaded) = Some 1"
    by (simp add: exLoaded_def init_def loadTasks_def sort_exStore newObject_def blankTask_def)
  have f1: "find (\<lambda>t. task_id (heap exLoaded t) = Some ([1, 2] ! 1)) (tasks exLoaded) = Some 0"
    by (simp add: exLoaded_def init_def loadTasks_def sort_exStore newObject_def blankTask_def)
  have m: "localMidnight (- 10800000) 86450000000 = 86400000000"
    by (simp add: localMidnight_def msPerDay_def)
  note t = handleTaskReorder_times [of "[1, 2]" exLoaded "- 10800000" 86450000000]
  note t1 = t [THEN conjunct1, rule_format]
  note t2 = t [THEN conjunct2, THEN conjunct1, rule_format]
  note t3 = t [THEN conjunct2, THEN conjunct2, THEN conjunct1, rule_format]
  have l0: "(0::nat) < length [1, 2 :: nat]" and l1: "(1::nat) < length [1, 2 :: nat]"
    and n3: "3 \<notin> set [1, 2 :: nat]" by simp_all
  have r0: "records (db (handleTaskReorder (- 10800000) 86450000000 exLoaded [1, 2])) ([1, 2] ! 0)
     = Some ((heap exLoaded 1)\<lparr>time := Some (localMidnight (- 10800000) 86450000000 + (9 + int 0) * oneHour - (- 10800000))\<rparr>)"
    by (rule t1 [OF l0 conjI [OF t2 [OF d l0] f0]])
  have r1: "records (db (handleTaskReorder (- 10800000) 86450000000 exLoaded [1, 2])) ([1, 2] ! 1)
     = Some ((heap exLoaded 0)\<lparr>time := Some (localMidnight (- 10800000) 86450000000 + (9 + int 1) * oneHour - (- 10800000))\<rparr>)"
    by (rule t1 [OF l1 conjI [OF t2 [OF d l1] f1]])
  have r3: "records (db (handleTaskReorder (- 10800000) 86450000000 exLoaded [1, 2])) 3
     = records (db exLoaded) 3"
    by (rule t3 [OF n3])
  show ?thesis using d f0 f1 r0 r1 r3 by (simp add: m oneHour_def)
qed

section \<open>Properties of the parser\<close>

lemma milk_arrayRule: "arrayRule milkText = Inr None"
  by (simp add: arrayRule_def bracketMatch_def milkText_def)

lemma milk_objectRule: "objectRule milkText = Inr None"
  by (simp add: objectRule_def bracketMatch_def milkText_def)

lemma milk_taskMatch: "taskMatch milkText = Some ''is: Buy milk''"
  unfolding milkText_def by code_simp

lemma milk_timeMatch: "timeMatch milkText = Some ''5pm''"
  unfolding milkText_def by code_simp

lemma trim_milk: "trim ''is: Buy milk'' = ''is: Buy milk''"
  by code_simp

lemma timeOfDay_5pm:
  "timeOfDayAt (dropWhile (\<lambda>c. \<not> isDigit c) ''5pm'')
     = Some \<lparr>hourDigits = ''5'', minuteDigits = None, period = Some ''pm'', matched = ''5pm''\<rparr>"
  by code_simp

lemma parseInt_5: "parseInt ''5'' = 5"
  by code_simp

lemma lower_pm: "map lower ''pm'' = ''pm''"
  by code_simp

lemma parseTimeString_5pm: "parseTimeString tz now ''5pm'' = setHours tz now 17 0 0 0"
  unfolding parseTimeString_def timeOfDay_5pm
  by (simp add: parseInt_5 lower_def)

text \<open>
  Claim C7, as the code has it. For the response \<open>The task is: Buy milk at 5pm\<close> neither
  bracket pattern matches, and the lexical rule returns one candidate: its title is all
  that follows \<open>task\<close> and the white space after it, up to the time phrase, that is
  \<open>is: Buy milk\<close>; its time is 17:00 of the local day of \<open>now\<close>.
\<close>

theorem milk_scenario:
  "parseTaskFromAI tz now milkText
     = Some [Extracted ''is: Buy milk'' (localMidnight tz now + 17 * oneHour - tz)]"
  by (simp add: parseTaskFromAI_def tryBlock_def milk_arrayRule milk_objectRule lexicalRule_def
      milk_taskMatch milk_timeMatch trim_milk parseTimeString_5pm setHours_def)

text \<open>
  The title of claim C7 as the specification words it, \<open>Buy milk\<close>, is not what the
  parser returns.
\<close>

theorem milk_scenario_title:
  "parseTaskFromAI 0 0 milkText = Some [Extracted ''is: Buy milk'' 61200000] \<and>
   parseTaskFromAI 0 0 milkText \<noteq> Some [Extracted ''Buy milk'' 61200000]"
  unfolding milkText_def by code_simp

text \<open>
  Claim C4, as the code has it. One \<open>try\<close> block holds the three rules. When
  \<open>JSON.parse\<close> throws on the bracketed text of the array rule, or on that of the object
  rule once the array rule found nothing, the parser returns \<open>null\<close> and tries no later
  rule. A later rule is tried only after a rule that found nothing; with neither bracket
  pattern matching, the result is that of the lexical rule. The parser returns \<open>null\<close>
  exactly when a rule throws or all three find nothing.
\<close>

theorem exception_returns_null:
  "(\<forall>m e. bracketMatch CHR ''['' CHR '']'' s = Some m \<and> JSON_parse (trim m) = Inl e
       \<longrightarrow> parseTaskFromAI tz now s = None) \<and>
   (\<forall>m e. arrayRule s = Inr None \<and>
           bracketMatch CHR ''{'' CHR ''}'' s = Some m \<and> JSON_parse (trim m) = Inl e
       \<longrightarrow> parseTaskFromAI tz now s = None) \<and>
   (bracketMatch CHR ''['' CHR '']'' s = None \<and> bracketMatch CHR ''{'' CHR ''}'' s = None
       \<longrightarrow> parseTaskFromAI tz now s = lexicalRule tz now s) \<and>
   (parseTaskFromAI tz now s = None \<longleftrightarrow>
      (\<exists>e. arrayRule s = Inl e) \<or>
      (arrayRule s = Inr None \<and> (\<exists>e. objectRule s = Inl e)) \<or>
      (arrayRule s = Inr None \<and> objectRule s = Inr None \<and> taskMatch s = None))"
  by (auto simp: parseTaskFromAI_def tryBlock_def arrayRule_def objectRule_def lexicalRule_def
      split: option.splits sum.splits json.splits)

lemma urgent_bracketMatch: "bracketMatch CHR ''['' CHR '']'' urgentText = Some ''[urgent]''"
  unfolding urgentText_def by code_simp

lemma urgent_JSON: "JSON_parse (trim ''[urgent]'') = Inl SyntaxError"
  by code_simp

theorem exception_returns_null_witness:
  "bracketMatch CHR ''['' CHR '']'' urgentText = Some ''[urgent]'' \<and>
   JSON_parse (trim ''[urgent]'') = Inl SyntaxError \<and>
   parseTaskFromAI 0 0 urgentText = None"
  using exception_returns_null [of urgentText 0 0] urgent_bracketMatch urgent_JSON
  by blast

text \<open>
  Claim C4 as the specification words it fails: in \<open>Task: call Bob [urgent] at 5pm\<close> the
  array rule throws; the parser returns \<open>null\<close>, where skipping the failed rule would have
  reached the lexical rule and a candidate.
\<close>

theorem exception_does_not_fall_through:
  "arrayRule urgentText = Inl SyntaxError \<and>
   parseTaskFromAI 0 0 urgentText = None \<and>
   parseFallingThrough 0 0 urgentText = Some [Extracted ''call Bob [urgent]'' 61200000]"
  unfolding urgentText_def by code_simp

text \<open>
  Claim C5, as the code has it. When the text from the first \<open>[\<close> to the first \<open>]\<close>
  after it parses as an array, the parser returns the elements of that array, whatever
  else the response holds, an object fragment included.
\<close>

theorem array_match_wins:
  "bracketMatch CHR ''['' CHR '']'' s = Some m \<Longrightarrow> JSON_parse (trim m) = Inr (JArray elems) \<Longrightarrow>
   parseTaskFromAI tz now s = Some (map Parsed elems)"
  by (simp add: parseTaskFromAI_def tryBlock_def arrayRule_def)

lemma both_bracketMatch: \<open>bracketMatch CHR ''['' CHR '']'' bothText = Some ''[{"title":"A"}]''\<close>
  unfolding bothText_def by code_simp

lemma both_JSON:
  \<open>JSON_parse (trim ''[{"title":"A"}]'') = Inr (JArray [JObject [(''title'', JString ''A'')]])\<close>
  by code_simp

lemma both_object:
  \<open>bracketMatch CHR ''{'' CHR ''}'' bothText = Some ''{"title":"A"}''\<close>
  unfolding bothText_def by code_simp

theorem array_match_wins_witness:
  \<open>bracketMatch CHR ''['' CHR '']'' bothText = Some ''[{"title":"A"}]'' \<and>
   JSON_parse (trim ''[{"title":"A"}]'') = Inr (JArray [JObject [(''title'', JString ''A'')]]) \<and>
   objectRule bothText = Inr (Some [Parsed (JObject [(''title'', JString ''A'')])]) \<and>
   parseTaskFromAI 0 0 bothText = Some [Parsed (JObject [(''title'', JString ''A'')])]\<close>
proof -
  have o: \<open>objectRule bothText = Inr (Some [Parsed (JObject [(''title'', JString ''A'')])])\<close>
    unfolding bothText_def by code_simp
  from array_match_wins [OF both_bracketMatch both_JSON, of 0 0] both_bracketMatch both_JSON o
  show ?thesis by simp
qed

text \<open>
  Claim C5 as the specification words it fails: this response holds an array fragment and
  an object fragment that both parse, but the array pattern stops at the first \<open>]\<close>,
  inside the title; the text it found does not parse and the parser returns \<open>null\<close>.
\<close>

theorem array_fragment_not_returned:
  \<open>bugText = ''[{"title":"Fix [bug]"}]'' @ '' {"title":"B"}'' \<and>
   JSON_parse ''[{"title":"Fix [bug]"}]'' = Inr (JArray [JObject [(''title'', JString ''Fix [bug]'')]]) \<and>
   bugText = ''[{"title":"Fix [bug]"}] '' @ ''{"title":"B"}'' \<and>
   JSON_parse ''{"title":"B"}'' = Inr (JObject [(''title'', JString ''B'')]) \<and>
   bracketMatch CHR ''['' CHR '']'' bugText = Some ''[{"title":"Fix [bug]'' \<and>
   parseTaskFromAI 0 0 bugText = None\<close>
  unfolding bugText_def by code_simp



text \<open>
  The parser hands on the elements of the array as they are, a \<open>null\<close> among them
  included; nothing between it and \<open>addTasksFromAI\<close> looks at them.
\<close>

lemma parse_keeps_null: "parseTaskFromAI tz now ''[null]'' = Some [Parsed JNull]"
proof -
  have "arrayRule ''[null]'' = Inr (Some [Parsed JNull])" by code_simp
  then show ?thesis by (simp add: parseTaskFromAI_def tryBlock_def)
qed

end
